theory Spec2Isabelle
  imports Complex_Main "HOL-Library.Sublist"
begin

section \<open>Strings\<close>

text \<open>
  Python strings are modelled as \<^typ>\<open>string\<close>. The model covers ASCII text, which is what
  URLs, the configured domains and the patterns of \<^verbatim>\<open>parser.py\<close> consist of: a character
  outside ASCII is treated as an ordinary character that is neither a letter, a digit nor white
  space.
\<close>

definition lower_char :: "char \<Rightarrow> char" where
  "lower_char c =
     (case map_of (zip ''ABCDEFGHIJKLMNOPQRSTUVWXYZ'' ''abcdefghijklmnopqrstuvwxyz'') c of
        Some d \<Rightarrow> d
      | None \<Rightarrow> c)"

text \<open>\<^verbatim>\<open>str.lower()\<close>\<close>

definition lower :: "string \<Rightarrow> string" where
  "lower s = map lower_char s"

text \<open>\<^verbatim>\<open>d in s\<close> on two strings: \<open>d\<close> occurs in \<open>s\<close> as a contiguous substring.\<close>

fun contains :: "string \<Rightarrow> string \<Rightarrow> bool" where
  "contains d [] = (d = [])"
| "contains d (c # cs) = (prefix d (c # cs) \<or> contains d cs)"

section \<open>Configuration (class \<^verbatim>\<open>Config\<close>)\<close>

definition REQUEST_TIMEOUT :: nat where
  "REQUEST_TIMEOUT = 30"

definition MAX_RETRIES :: nat where
  "MAX_RETRIES = 3"

text \<open>\<^verbatim>\<open>Config.USER_AGENTS[0]\<close>\<close>

definition USER_AGENT_0 :: string where
  "USER_AGENT_0 =
     ''Mozilla/5.0 (Windows NT 10.0; Win64; x64) AppleWebKit/537.36 (KHTML, like Gecko) Chrome/91.0.4472.124 Safari/537.36''"

text \<open>
  \<^verbatim>\<open>Config.SUPPORTED_PLATFORMS\<close>: a dictionary literal, iterated in insertion order, so an
  association list in the order of the source.
\<close>

definition SUPPORTED_PLATFORMS :: "(string \<times> string list) list" where
  "SUPPORTED_PLATFORMS =
     [(''douyin'', [''douyin.com'', ''dy.com'', ''iesdouyin.com'']),
      (''kuaishou'', [''kuaishou.com'', ''ks.com'']),
      (''xiaohongshu'', [''xiaohongshu.com'', ''xhs.com'']),
      (''bilibili'', [''bilibili.com'', ''b23.tv'']),
      (''weishi'', [''weishi.qq.com''])]"

section \<open>Platform classification (\<^verbatim>\<open>get_platform_from_url\<close>)\<close>

text \<open>The inner loop \<^verbatim>\<open>for domain in domains: if domain in url_lower: return platform\<close>.\<close>

fun domains_loop :: "string list \<Rightarrow> string \<Rightarrow> bool" where
  "domains_loop [] url_lower = False"
| "domains_loop (domain # domains) url_lower =
     (if contains domain url_lower then True else domains_loop domains url_lower)"

text \<open>The outer loop over \<^verbatim>\<open>Config.SUPPORTED_PLATFORMS.items()\<close>; falling out of it returns \<^verbatim>\<open>None\<close>.\<close>

fun platforms_loop :: "(string \<times> string list) list \<Rightarrow> string \<Rightarrow> string option" where
  "platforms_loop [] url_lower = None"
| "platforms_loop ((platform, domains) # rest) url_lower =
     (if domains_loop domains url_lower then Some platform else platforms_loop rest url_lower)"

definition get_platform_from_url :: "string \<Rightarrow> string option" where
  "get_platform_from_url url = platforms_loop SUPPORTED_PLATFORMS (lower url)"

section \<open>Python values, exceptions and messages\<close>

text \<open>
  A value decoded from JSON. An object is a Python dictionary, which keeps its keys in insertion
  order: an association list (with distinct keys when it comes from \<^verbatim>\<open>json.loads\<close>). A finite
  float is the real number it denotes; only its truth value is ever inspected.
\<close>

datatype json =
    JNull
  | JBool bool
  | JInt int
  | JFloat real
  | JStr string
  | JArr "json list"
  | JObj "(string \<times> json) list"

text \<open>The three parser classes (instances are stateless apart from \<^verbatim>\<open>platform_name\<close>).\<close>

datatype parser = DouyinParser | KuaishouParser | XiaohongshuParser

text \<open>
  The texts of \<^verbatim>\<open>parser.py\<close> are not ASCII, so each message literal is a constructor, named
  after what it says, with the line of the literal in the source:
  \<^item> \<open>CORS_preflight\<close> line 396, \<open>Only_POST\<close> line 406, \<open>Bad_request_data\<close> line 422,
    \<open>Url_required\<close> line 434, \<open>Unsupported_platform\<close> line 446, \<open>Internal_error\<close> line 492;
  \<^item> \<open>Not_implemented platform\<close> is the f-string of line 458: the platform id followed by
    the fixed text;
  \<^item> \<open>Retries_exhausted\<close> line 112;
  \<^item> \<open>No_video_id\<close> line 157, \<open>Bad_api_response\<close> line 173, \<open>No_download_url\<close> lines 187,
    255 and 310 (one text), \<open>No_page_data\<close> line 243, \<open>No_video_info\<close> line 250,
    \<open>No_page_state\<close> line 296, \<open>Page_state_invalid\<close> line 301, \<open>No_note_data\<close> line 306;
  \<^item> \<open>Parse_failed p m\<close> is the f-string of lines 205, 268 and 323: the prefix of parser \<open>p\<close>
    followed by the text \<open>m\<close> of the exception caught;
  \<^item> \<open>Exception_text e\<close> is the text \<^verbatim>\<open>str(e)\<close> that Python gives to an exception it raised
    itself;
  \<^item> \<open>Text s\<close> is a text that comes from the environment (the description of a network
    failure).

  An exception is a value. \<open>RequestException\<close> stands for every \<^verbatim>\<open>requests.RequestException\<close>
  but the \<open>HTTPError\<close> that \<^verbatim>\<open>raise_for_status\<close> raises, which carries the status code;
  \<open>RecursionError\<close> is what the decoder raises on a text nested too deeply; \<open>OtherError\<close>
  stands for any other exception class the source never names.
\<close>

datatype exn =
    ValueError message
  | RequestException message
  | HTTPError nat
  | JSONDecodeError
  | AttributeError
  | TypeError
  | KeyError
  | IndexError
  | RecursionError
  | OtherError
and message =
    Text string
  | CORS_preflight
  | Only_POST
  | Bad_request_data
  | Url_required
  | Unsupported_platform
  | Not_implemented string
  | Internal_error
  | Retries_exhausted
  | No_video_id
  | Bad_api_response
  | No_download_url
  | No_page_data
  | No_video_info
  | No_page_state
  | Page_state_invalid
  | No_note_data
  | Parse_failed parser message
  | Exception_text exn

text \<open>\<^verbatim>\<open>str(e)\<close>: the message an exception was raised with.\<close>

fun str_exn :: "exn \<Rightarrow> message" where
  "str_exn (ValueError m) = m"
| "str_exn (RequestException m) = m"
| "str_exn e = Exception_text e"

text \<open>\<^verbatim>\<open>except ValueError\<close>: \<^verbatim>\<open>json.JSONDecodeError\<close> is a subclass.\<close>

fun is_ValueError :: "exn \<Rightarrow> bool" where
  "is_ValueError (ValueError m) = True"
| "is_ValueError JSONDecodeError = True"
| "is_ValueError e = False"

text \<open>
  \<^verbatim>\<open>except json.JSONDecodeError\<close>: no other exception of the model is one, a plain
  \<open>ValueError\<close> in particular is not.
\<close>

fun is_JSONDecodeError :: "exn \<Rightarrow> bool" where
  "is_JSONDecodeError JSONDecodeError = True"
| "is_JSONDecodeError e = False"

text \<open>\<^verbatim>\<open>except requests.RequestException\<close>: \<^verbatim>\<open>HTTPError\<close> is a subclass.\<close>

fun is_RequestException :: "exn \<Rightarrow> bool" where
  "is_RequestException (RequestException m) = True"
| "is_RequestException (HTTPError code) = True"
| "is_RequestException e = False"

section \<open>The environment\<close>

text \<open>The fields of a \<^verbatim>\<open>requests.Response\<close> that the source reads.\<close>

record response =
  status_code :: nat
  headers :: "(string \<times> string) list"
  resp_text :: string

text \<open>
  What the source calls and does not define is a parameter of the model:
  \<^item> \<open>session_get env clock url hdrs timeout allow_redirects\<close> is the outcome of
    \<^verbatim>\<open>session.get(url, timeout=..., allow_redirects=...)\<close> on a fresh session whose headers
    were updated with \<open>hdrs\<close>, when \<open>clock\<close> GET requests have been sent before: an exception
    or the final response (after any redirect the library followed). The clock is the only
    state: every GET advances it by one, so the outcomes of successive attempts are independent
    and the number of attempts is observable;
  \<^item> \<open>json_loads env s\<close> is \<^verbatim>\<open>json.loads(s)\<close> (and \<^verbatim>\<open>response.json()\<close> on a body \<open>s\<close>):
    the decoded value, or the exception it raises. That is \<open>JSONDecodeError\<close> for a text that
    is not JSON, but the decoder raises others too (\<open>RecursionError\<close> on deep nesting, a plain
    \<open>ValueError\<close> on an integer with too many digits), so any exception is allowed;
  \<^item> \<open>truediv env v n\<close> is Python's \<^verbatim>\<open>v / n\<close>, a float or an exception;
  \<^item> \<open>str_of env v\<close> is \<^verbatim>\<open>str(v)\<close> for a value that is not a string.
\<close>

record env =
  session_get :: "nat \<Rightarrow> string \<Rightarrow> (string \<times> string) list \<Rightarrow> nat \<Rightarrow> bool \<Rightarrow> exn + response"
  json_loads :: "string \<Rightarrow> exn + json"
  truediv :: "json \<Rightarrow> int \<Rightarrow> exn + json"
  str_of :: "json \<Rightarrow> string"

section \<open>HTTP retrieval (\<^verbatim>\<open>make_request\<close>)\<close>

text \<open>The header set used when the caller passes \<^verbatim>\<open>headers=None\<close> (lines 83 to 91).\<close>

definition DEFAULT_HEADERS :: "(string \<times> string) list" where
  "DEFAULT_HEADERS =
     [(''User-Agent'', USER_AGENT_0),
      (''Accept'', ''text/html,application/xhtml+xml,application/xml;q=0.9,image/webp,*/*;q=0.8''),
      (''Accept-Language'', ''zh-CN,zh;q=0.8,en-US;q=0.5,en;q=0.3''),
      (''Accept-Encoding'', ''gzip, deflate''),
      (''DNT'', ''1''),
      (''Connection'', ''keep-alive''),
      (''Upgrade-Insecure-Requests'', ''1'')]"

text \<open>
  \<^verbatim>\<open>response.raise_for_status()\<close> of the requests library raises \<^verbatim>\<open>HTTPError\<close> for a status
  code from 400 to 599 and returns for every other one.
\<close>

definition raise_for_status :: "response \<Rightarrow> exn option" where
  "raise_for_status r =
     (if 400 \<le> status_code r \<and> status_code r < 600 then Some (HTTPError (status_code r))
      else None)"

text \<open>The body of the \<^verbatim>\<open>try\<close> of lines 99 to 105: one GET, then the status check.\<close>

definition attempt_get ::
  "env \<Rightarrow> nat \<Rightarrow> string \<Rightarrow> (string \<times> string) list \<Rightarrow> bool \<Rightarrow> exn + response" where
  "attempt_get env clock url hdrs follow_redirects =
     (case session_get env clock url hdrs REQUEST_TIMEOUT follow_redirects of
        Inl e \<Rightarrow> Inl e
      | Inr r \<Rightarrow> (case raise_for_status r of Some e \<Rightarrow> Inl e | None \<Rightarrow> Inr r))"

text \<open>
  The loop \<^verbatim>\<open>for attempt in range(Config.MAX_RETRIES)\<close> over the attempt numbers still to run.
  A request exception is swallowed unless \<^verbatim>\<open>attempt == Config.MAX_RETRIES - 1\<close>; any other
  exception leaves the function at once; falling out of the loop raises (line 112). The result
  is paired with the clock after the call.
\<close>

fun attempts_loop ::
  "env \<Rightarrow> string \<Rightarrow> (string \<times> string) list \<Rightarrow> bool \<Rightarrow> nat list \<Rightarrow> nat \<Rightarrow> (exn + response) \<times> nat" where
  "attempts_loop env url hdrs follow_redirects [] clock =
     (Inl (RequestException Retries_exhausted), clock)"
| "attempts_loop env url hdrs follow_redirects (attempt # rest) clock =
     (case attempt_get env clock url hdrs follow_redirects of
        Inr r \<Rightarrow> (Inr r, Suc clock)
      | Inl e \<Rightarrow>
          if is_RequestException e
          then (if attempt = MAX_RETRIES - 1 then (Inl e, Suc clock)
                else attempts_loop env url hdrs follow_redirects rest (Suc clock))
          else (Inl e, Suc clock))"

definition make_request ::
  "env \<Rightarrow> string \<Rightarrow> (string \<times> string) list option \<Rightarrow> bool \<Rightarrow> nat \<Rightarrow> (exn + response) \<times> nat" where
  "make_request env url hdrs follow_redirects clock =
     attempts_loop env url (case hdrs of None \<Rightarrow> DEFAULT_HEADERS | Some h \<Rightarrow> h)
       follow_redirects [0..<MAX_RETRIES] clock"

section \<open>Python operations on strings\<close>

definition is_digit :: "char \<Rightarrow> bool" where
  "is_digit c = (c \<in> set ''0123456789'')"

text \<open>
  White space as \<^verbatim>\<open>str.strip()\<close> and the pattern \<^verbatim>\<open>\s\<close> see it: tab, line feed, vertical tab,
  form feed, carriage return, the four separators \<open>0x1C\<close> to \<open>0x1F\<close>, and the space.
\<close>

definition is_space :: "char \<Rightarrow> bool" where
  "is_space c =
     (c \<in> set [CHR 0x09, CHR 0x0A, CHR 0x0B, CHR 0x0C, CHR 0x0D,
                CHR 0x1C, CHR 0x1D, CHR 0x1E, CHR 0x1F, CHR 0x20])"

text \<open>\<^verbatim>\<open>str.strip()\<close>\<close>

definition strip :: "string \<Rightarrow> string" where
  "strip s = rev (dropWhile is_space (rev (dropWhile is_space s)))"

text \<open>
  \<^verbatim>\<open>s.replace(old, new)\<close>: every occurrence of \<open>old\<close>, found from left to right without
  overlap, is replaced by \<open>new\<close>. (With an empty \<open>old\<close>, Python puts \<open>new\<close> before every
  character and at the end.)
\<close>

fun replace :: "string \<Rightarrow> string \<Rightarrow> string \<Rightarrow> string" where
  "replace [] new s = new @ concat (map (\<lambda>c. c # new) s)"
| "replace (a # old) new [] = []"
| "replace (a # old) new (c # cs) =
     (if prefix (a # old) (c # cs) then new @ replace (a # old) new (drop (length old) cs)
      else c # replace (a # old) new cs)"

section \<open>Regular expressions of the source\<close>

text \<open>
  \<^verbatim>\<open>re.search(pattern, s)\<close> tries the pattern at every position of \<open>s\<close> from the left, the end
  of the string included, and returns the first match. A pattern is given by its anchored
  matcher: the function that matches it at the start of a string and returns group 1.
\<close>

fun re_search :: "(string \<Rightarrow> string option) \<Rightarrow> string \<Rightarrow> string option" where
  "re_search pattern [] = pattern []"
| "re_search pattern (c # cs) =
     (case pattern (c # cs) of Some g \<Rightarrow> Some g | None \<Rightarrow> re_search pattern cs)"

text \<open>
  The patterns \<^verbatim>\<open>/video/(\d+)\<close> and \<^verbatim>\<open>item_ids=(\d+)\<close>: a literal, then one or more digits. The
  greedy \<^verbatim>\<open>\d+\<close> takes the whole run of digits, and no shorter run is ever tried since nothing
  follows the group.
\<close>

definition match_digits_after :: "string \<Rightarrow> string \<Rightarrow> string option" where
  "match_digits_after lit s =
     (if prefix lit s \<and> takeWhile is_digit (drop (length lit) s) \<noteq> []
      then Some (takeWhile is_digit (drop (length lit) s))
      else None)"

text \<open>
  The pattern \<^verbatim>\<open>/(\d+)/?$\<close>: a slash, one or more digits, an optional slash, and the end of
  the string, where \<^verbatim>\<open>$\<close> also matches just before a line feed that ends the string. A shorter
  run of digits cannot match, since a digit would follow it.
\<close>

definition match_trailing_digits :: "string \<Rightarrow> string option" where
  "match_trailing_digits s =
     (if prefix ''/'' s \<and> takeWhile is_digit (drop 1 s) \<noteq> [] \<and>
         dropWhile is_digit (drop 1 s) \<in> set [[], ''/'', [CHR 0x0A], [CHR ''/'', CHR 0x0A]]
      then Some (takeWhile is_digit (drop 1 s))
      else None)"

text \<open>
  The lazy \<^verbatim>\<open>.*?\<close> under \<^verbatim>\<open>re.DOTALL\<close>, followed by the literal \<open>stop\<close>: the text before the
  first occurrence of \<open>stop\<close>.
\<close>

fun lazy_until :: "string \<Rightarrow> string \<Rightarrow> string option" where
  "lazy_until stop [] = (if stop = [] then Some [] else None)"
| "lazy_until stop (c # cs) =
     (if prefix stop (c # cs) then Some [] else map_option ((#) c) (lazy_until stop cs))"

text \<open>
  The patterns \<^verbatim>\<open>window\.pageData\s*=\s*({.*?});\<close> and
  \<^verbatim>\<open>window\.__INITIAL_STATE__\s*=\s*({.*?})</script>\<close>: the name, white space, the equals
  sign, white space, then group 1 from an opening brace to the first closing brace that the
  terminator (\<open>;\<close> or \<open></script>\<close>) follows.
\<close>

definition match_assignment :: "string \<Rightarrow> string \<Rightarrow> string \<Rightarrow> string option" where
  "match_assignment name terminator s =
     (if prefix name s then
        (let r1 = dropWhile is_space (drop (length name) s) in
         if prefix ''='' r1 then
           (let r2 = dropWhile is_space (drop 1 r1) in
            if prefix ''{'' r2 then
              (case lazy_until (''}'' @ terminator) (drop 1 r2) of
                 Some inner \<Rightarrow> Some (''{'' @ inner @ ''}'')
               | None \<Rightarrow> None)
            else None)
         else None)
      else None)"

section \<open>Python operations on values\<close>

text \<open>Truth value of a value, as \<^verbatim>\<open>if v\<close> and \<^verbatim>\<open>not v\<close> take it.\<close>

fun truthy :: "json \<Rightarrow> bool" where
  "truthy JNull = False"
| "truthy (JBool b) = b"
| "truthy (JInt n) = (n \<noteq> 0)"
| "truthy (JFloat x) = (x \<noteq> 0)"
| "truthy (JStr s) = (s \<noteq> [])"
| "truthy (JArr xs) = (xs \<noteq> [])"
| "truthy (JObj kvs) = (kvs \<noteq> [])"

text \<open>Sequencing of steps that may raise: the first exception ends the computation.\<close>

definition and_then :: "exn + 'a \<Rightarrow> ('a \<Rightarrow> exn + 'b) \<Rightarrow> exn + 'b" where
  "and_then m f = (case m of Inl e \<Rightarrow> Inl e | Inr x \<Rightarrow> f x)"

text \<open>\<^verbatim>\<open>v.get(key, default)\<close>: only a dictionary has the method.\<close>

fun py_get :: "json \<Rightarrow> string \<Rightarrow> json \<Rightarrow> exn + json" where
  "py_get (JObj kvs) key dflt = Inr (case map_of kvs key of Some v \<Rightarrow> v | None \<Rightarrow> dflt)"
| "py_get v key dflt = Inl AttributeError"

text \<open>
  \<^verbatim>\<open>key in v\<close> for a string \<open>key\<close>: a key of a dictionary, an element of a list, a substring
  of a string; the other values are not containers.
\<close>

fun py_in :: "string \<Rightarrow> json \<Rightarrow> exn + bool" where
  "py_in key (JObj kvs) = Inr (key \<in> set (map fst kvs))"
| "py_in key (JArr xs) = Inr (JStr key \<in> set xs)"
| "py_in key (JStr s) = Inr (contains key s)"
| "py_in key v = Inl TypeError"

text \<open>\<^verbatim>\<open>v[key]\<close> for a string \<open>key\<close>.\<close>

fun py_getitem :: "json \<Rightarrow> string \<Rightarrow> exn + json" where
  "py_getitem (JObj kvs) key = (case map_of kvs key of Some v \<Rightarrow> Inr v | None \<Rightarrow> Inl KeyError)"
| "py_getitem v key = Inl TypeError"

text \<open>
  \<^verbatim>\<open>v[0]\<close>: the first element of a list, the first character of a string (as a string); a
  dictionary decoded from JSON has string keys only, so the key \<open>0\<close> is missing.
\<close>

fun py_getitem_0 :: "json \<Rightarrow> exn + json" where
  "py_getitem_0 (JArr []) = Inl IndexError"
| "py_getitem_0 (JArr (x # xs)) = Inr x"
| "py_getitem_0 (JStr []) = Inl IndexError"
| "py_getitem_0 (JStr (c # cs)) = Inr (JStr [c])"
| "py_getitem_0 (JObj kvs) = Inl KeyError"
| "py_getitem_0 v = Inl TypeError"

text \<open>\<^verbatim>\<open>v.replace(old, new)\<close> and \<^verbatim>\<open>v.strip()\<close>: only a string has the methods.\<close>

fun py_replace :: "json \<Rightarrow> string \<Rightarrow> string \<Rightarrow> exn + json" where
  "py_replace (JStr s) old new = Inr (JStr (replace old new s))"
| "py_replace v old new = Inl AttributeError"

fun py_strip :: "json \<Rightarrow> exn + string" where
  "py_strip (JStr s) = Inr (strip s)"
| "py_strip v = Inl AttributeError"

text \<open>A value in an f-string: a string stands for itself, any other value for \<^verbatim>\<open>str(v)\<close>.\<close>

fun format_value :: "env \<Rightarrow> json \<Rightarrow> string" where
  "format_value env (JStr s) = s"
| "format_value env v = str_of env v"

section \<open>The parsers\<close>

text \<open>
  The dictionary a parser returns. The keys \<^verbatim>\<open>video_id\<close> and \<^verbatim>\<open>duration\<close> are set by
  \<open>DouyinParser\<close> only. Values taken from a payload are stored as they are, whatever their type.
  The field \<open>size_text\<close> is the key \<^verbatim>\<open>size\<close>.
\<close>

record video_result =
  success :: bool
  title :: json
  download_url :: json
  platform_name :: string
  video_id :: "string option"
  author :: json
  duration :: "json option"
  size_text :: string
  filename :: string

text \<open>
  The string literals of the source that are not ASCII and end up in a result, as their UTF-8
  bytes: the three \<^verbatim>\<open>platform_name\<close> attributes (lines 140, 228, 276), the default titles
  (lines 194, 259, 314) and the size text (lines 200, 263, 318). Nothing inspects them.
\<close>

definition name_douyin :: string where
  "name_douyin = [CHR 0xE6, CHR 0x8A, CHR 0x96, CHR 0xE9, CHR 0x9F, CHR 0xB3]"

definition name_kuaishou :: string where
  "name_kuaishou = [CHR 0xE5, CHR 0xBF, CHR 0xAB, CHR 0xE6, CHR 0x89, CHR 0x8B]"

definition name_xiaohongshu :: string where
  "name_xiaohongshu =
     [CHR 0xE5, CHR 0xB0, CHR 0x8F, CHR 0xE7, CHR 0xBA, CHR 0xA2, CHR 0xE4, CHR 0xB9, CHR 0xA6]"

definition video_suffix :: string where
  "video_suffix = [CHR 0xE8, CHR 0xA7, CHR 0x86, CHR 0xE9, CHR 0xA2, CHR 0x91]"

definition size_unknown :: string where
  "size_unknown = [CHR 0xE6, CHR 0x9C, CHR 0xAA, CHR 0xE7, CHR 0x9F, CHR 0xA5]"

subsection \<open>\<^verbatim>\<open>DouyinParser\<close>\<close>

text \<open>\<^verbatim>\<open>_extract_video_id\<close>: the loop over the three patterns, in the order of the list.\<close>

definition patterns :: "(string \<Rightarrow> string option) list" where
  "patterns =
     [match_digits_after ''/video/'', match_digits_after ''item_ids='', match_trailing_digits]"

fun patterns_loop :: "(string \<Rightarrow> string option) list \<Rightarrow> string \<Rightarrow> string option" where
  "patterns_loop [] url = None"
| "patterns_loop (pattern # rest) url =
     (case re_search pattern url of Some g \<Rightarrow> Some g | None \<Rightarrow> patterns_loop rest url)"

definition extract_video_id :: "string \<Rightarrow> string option" where
  "extract_video_id url = patterns_loop patterns url"

text \<open>Line 190: the watermark flag of the candidate URL is switched off.\<close>

definition rewrite_watermark :: "json \<Rightarrow> exn + json" where
  "rewrite_watermark candidate = py_replace candidate ''watermark=1'' ''watermark=0''"

text \<open>
  Lines 180 to 184: \<^verbatim>\<open>download_url\<close> starts as \<^verbatim>\<open>None\<close> and becomes
  \<^verbatim>\<open>play_addr['url_list'][0]\<close> when the key is there and its value is true.
\<close>

definition douyin_download_url :: "json \<Rightarrow> exn + json" where
  "douyin_download_url play_addr =
     and_then (py_in ''url_list'' play_addr) (\<lambda>present.
       if present then
         and_then (py_getitem play_addr ''url_list'') (\<lambda>url_list.
           if truthy url_list then py_getitem_0 url_list else Inr JNull)
       else Inr JNull)"

text \<open>
  Lines 172 to 202, from the decoded API response \<open>data\<close> to the result. The condition of
  line 172 is \<^verbatim>\<open>'item_list' not in data or not data['item_list']\<close>.
\<close>

definition douyin_result :: "env \<Rightarrow> string \<Rightarrow> json \<Rightarrow> exn + video_result" where
  "douyin_result env vid data =
     and_then (py_in ''item_list'' data) (\<lambda>present.
     and_then (if \<not> present then Inr True
               else and_then (py_getitem data ''item_list'') (\<lambda>l. Inr (\<not> truthy l))) (\<lambda>bad.
     if bad then Inl (ValueError Bad_api_response) else
     and_then (py_getitem data ''item_list'') (\<lambda>item_list.
     and_then (py_getitem_0 item_list) (\<lambda>item.
     and_then (py_get item ''video'' (JObj [])) (\<lambda>video_info.
     and_then (py_get video_info ''play_addr'' (JObj [])) (\<lambda>play_addr.
     and_then (douyin_download_url play_addr) (\<lambda>candidate.
     if \<not> truthy candidate then Inl (ValueError No_download_url) else
     and_then (rewrite_watermark candidate) (\<lambda>url.
     and_then (py_get item ''desc'' (JStr (name_douyin @ video_suffix))) (\<lambda>desc.
     and_then (py_get item ''author'' (JObj [])) (\<lambda>author_info.
     and_then (py_get author_info ''nickname'' (JStr '''')) (\<lambda>nickname.
     and_then (py_get video_info ''duration'' (JInt 0)) (\<lambda>ms.
     and_then (truediv env ms 1000) (\<lambda>seconds.
     Inr \<lparr>success = True, title = desc, download_url = url, platform_name = name_douyin,
          video_id = Some vid, author = nickname, duration = Some seconds,
          size_text = size_unknown,
          filename = ''douyin_'' @ vid @ ''.mp4''\<rparr>)))))))))))))"

text \<open>
  Lines 149 to 152: the target of a 301 or 302 response, read from its \<open>Location\<close> header
  (the lookup spells the name as the source does), and the URL itself otherwise.
\<close>

definition real_url :: "response \<Rightarrow> string \<Rightarrow> string" where
  "real_url r url =
     (if status_code r \<in> set [301, 302]
      then (case map_of (headers r) ''Location'' of Some l \<Rightarrow> l | None \<Rightarrow> url)
      else url)"

text \<open>The f-string of line 160.\<close>

definition douyin_api_url :: "string \<Rightarrow> string" where
  "douyin_api_url vid = ''https://www.iesdouyin.com/web/api/v2/aweme/iteminfo/?item_ids='' @ vid"

text \<open>
  The body of the \<^verbatim>\<open>try\<close> of \<open>DouyinParser.parse\<close> (lines 145 to 202). The first request does
  not follow redirects and uses the default headers; the second one carries the headers of
  lines 163 to 166 and follows redirects.
\<close>

definition douyin_body :: "env \<Rightarrow> string \<Rightarrow> nat \<Rightarrow> (exn + video_result) \<times> nat" where
  "douyin_body env url clock =
     (case make_request env url None False clock of
        (Inl e, clock1) \<Rightarrow> (Inl e, clock1)
      | (Inr r, clock1) \<Rightarrow>
          (case extract_video_id (real_url r url) of
             None \<Rightarrow> (Inl (ValueError No_video_id), clock1)
           | Some vid \<Rightarrow>
               if vid = [] then (Inl (ValueError No_video_id), clock1)
               else
                 (case make_request env (douyin_api_url vid)
                         (Some [(''User-Agent'', USER_AGENT_0),
                                (''Referer'', ''https://www.douyin.com/'')])
                         True clock1 of
                    (Inl e, clock2) \<Rightarrow> (Inl e, clock2)
                  | (Inr api_response, clock2) \<Rightarrow>
                      (case json_loads env (resp_text api_response) of
                         Inl e \<Rightarrow> (Inl e, clock2)
                       | Inr data \<Rightarrow> (douyin_result env vid data, clock2)))))"

subsection \<open>\<^verbatim>\<open>KuaishouParser\<close>\<close>

text \<open>Lines 248 to 265, from the decoded page data to the result.\<close>

definition kuaishou_result :: "env \<Rightarrow> json \<Rightarrow> exn + video_result" where
  "kuaishou_result env page_data =
     and_then (py_get page_data ''videoInfo'' (JObj [])) (\<lambda>video_info.
     if \<not> truthy video_info then Inl (ValueError No_video_info) else
     and_then (py_get video_info ''srcNoMark'' JNull) (\<lambda>src_no_mark.
     and_then (if truthy src_no_mark then Inr src_no_mark
               else py_get video_info ''src'' JNull) (\<lambda>video_url.
     if \<not> truthy video_url then Inl (ValueError No_download_url) else
     and_then (py_get video_info ''title'' (JStr (name_kuaishou @ video_suffix))) (\<lambda>t.
     and_then (py_get video_info ''userName'' (JStr '''')) (\<lambda>user_name.
     and_then (py_get video_info ''photoId'' (JStr ''video'')) (\<lambda>photo_id.
     Inr \<lparr>success = True, title = t, download_url = video_url, platform_name = name_kuaishou,
          video_id = None, author = user_name, duration = None, size_text = size_unknown,
          filename = ''kuaishou_'' @ format_value env photo_id @ ''.mp4''\<rparr>))))))"

text \<open>The body of the \<^verbatim>\<open>try\<close> of \<open>KuaishouParser.parse\<close> (lines 233 to 265).\<close>

definition kuaishou_body :: "env \<Rightarrow> string \<Rightarrow> nat \<Rightarrow> (exn + video_result) \<times> nat" where
  "kuaishou_body env url clock =
     (case make_request env url None True clock of
        (Inl e, clock1) \<Rightarrow> (Inl e, clock1)
      | (Inr r, clock1) \<Rightarrow>
          (case re_search (match_assignment ''window.pageData'' '';'') (resp_text r) of
             None \<Rightarrow> (Inl (ValueError No_page_data), clock1)
           | Some g \<Rightarrow>
               (case json_loads env g of
                  Inl e \<Rightarrow> (Inl e, clock1)
                | Inr page_data \<Rightarrow> (kuaishou_result env page_data, clock1))))"

subsection \<open>\<^verbatim>\<open>XiaohongshuParser\<close>\<close>

text \<open>The dictionary that \<^verbatim>\<open>_extract_note_data\<close> builds (lines 335 to 340).\<close>

record note_data =
  note_id :: string
  note_title :: json
  note_author :: json
  note_video_url :: json

text \<open>
  The loop of \<^verbatim>\<open>_extract_note_data\<close> over the items of the note map, in the order of the
  dictionary: the first note of type \<open>video\<close> ends it.
\<close>

fun notes_loop :: "(string \<times> json) list \<Rightarrow> exn + note_data option" where
  "notes_loop [] = Inr None"
| "notes_loop ((nid, note_info) # rest) =
     and_then (py_get note_info ''note'' (JObj [])) (\<lambda>note.
     and_then (py_get note ''type'' JNull) (\<lambda>ty.
     if ty = JStr ''video'' then
       and_then (py_get note ''video'' (JObj [])) (\<lambda>video_info.
       and_then (py_get note ''title'' (JStr '''')) (\<lambda>t.
       and_then (py_get note ''user'' (JObj [])) (\<lambda>user.
       and_then (py_get user ''nickname'' (JStr '''')) (\<lambda>nickname.
       and_then (py_get video_info ''media'' (JObj [])) (\<lambda>media.
       and_then (py_get media ''videoKey'' (JStr '''')) (\<lambda>video_key.
       Inr (Some \<lparr>note_id = nid, note_title = t, note_author = nickname,
                  note_video_url = video_key\<rparr>)))))))
     else notes_loop rest))"

text \<open>\<^verbatim>\<open>.items()\<close>: only a dictionary has the method.\<close>

fun py_items :: "json \<Rightarrow> exn + (string \<times> json) list" where
  "py_items (JObj kvs) = Inr kvs"
| "py_items v = Inl AttributeError"

text \<open>\<^verbatim>\<open>_extract_note_data\<close>: any exception in its body gives \<^verbatim>\<open>None\<close>.\<close>

definition extract_note_data :: "json \<Rightarrow> note_data option" where
  "extract_note_data initial_state =
     (case and_then (py_get initial_state ''note'' (JObj [])) (\<lambda>note_state.
           and_then (py_get note_state ''noteDetailMap'' (JObj [])) (\<lambda>note_detail.
           and_then (py_items note_detail) notes_loop)) of
        Inl e \<Rightarrow> None
      | Inr found \<Rightarrow> found)"

text \<open>
  Lines 304 to 320, from the decoded page state to the result. The dictionary of
  \<^verbatim>\<open>_extract_note_data\<close> has all four keys, so the defaults of its \<^verbatim>\<open>get\<close> calls are unused.
\<close>

definition xiaohongshu_result :: "json \<Rightarrow> exn + video_result" where
  "xiaohongshu_result initial_state =
     (case extract_note_data initial_state of
        None \<Rightarrow> Inl (ValueError No_note_data)
      | Some nd \<Rightarrow>
          if \<not> truthy (note_video_url nd) then Inl (ValueError No_download_url)
          else Inr \<lparr>success = True, title = note_title nd, download_url = note_video_url nd,
                    platform_name = name_xiaohongshu, video_id = None, author = note_author nd,
                    duration = None, size_text = size_unknown,
                    filename = ''xiaohongshu_'' @ note_id nd @ ''.mp4''\<rparr>)"

text \<open>
  The body of the \<^verbatim>\<open>try\<close> of \<open>XiaohongshuParser.parse\<close> (lines 281 to 320); a
  \<open>JSONDecodeError\<close> of the page state is turned into a \<open>ValueError\<close> of its own (lines 298 to
  301), any other exception of the decoder goes on as it is.
\<close>

definition xiaohongshu_body :: "env \<Rightarrow> string \<Rightarrow> nat \<Rightarrow> (exn + video_result) \<times> nat" where
  "xiaohongshu_body env url clock =
     (case make_request env url
             (Some [(''User-Agent'', USER_AGENT_0), (''Referer'', ''https://www.xiaohongshu.com/'')])
             True clock of
        (Inl e, clock1) \<Rightarrow> (Inl e, clock1)
      | (Inr r, clock1) \<Rightarrow>
          (case re_search (match_assignment ''window.__INITIAL_STATE__'' ''</script>'') (resp_text r) of
             None \<Rightarrow> (Inl (ValueError No_page_state), clock1)
           | Some g \<Rightarrow>
               (case json_loads env g of
                  Inl e \<Rightarrow>
                    if is_JSONDecodeError e then (Inl (ValueError Page_state_invalid), clock1)
                    else (Inl e, clock1)
                | Inr initial_state \<Rightarrow> (xiaohongshu_result initial_state, clock1))))"

subsection \<open>\<^verbatim>\<open>parse\<close>\<close>

text \<open>
  Each \<^verbatim>\<open>parse\<close> method wraps its body in \<^verbatim>\<open>except Exception as e\<close> and raises a
  \<open>ValueError\<close> whose message is the prefix of the parser followed by \<^verbatim>\<open>str(e)\<close>
  (lines 204, 267 and 322).
\<close>

fun parser_body :: "parser \<Rightarrow> env \<Rightarrow> string \<Rightarrow> nat \<Rightarrow> (exn + video_result) \<times> nat" where
  "parser_body DouyinParser = douyin_body"
| "parser_body KuaishouParser = kuaishou_body"
| "parser_body XiaohongshuParser = xiaohongshu_body"

definition parse :: "parser \<Rightarrow> env \<Rightarrow> string \<Rightarrow> nat \<Rightarrow> (exn + video_result) \<times> nat" where
  "parse p env url clock =
     (case parser_body p env url clock of
        (Inl e, clock') \<Rightarrow> (Inl (ValueError (Parse_failed p (str_exn e))), clock')
      | (Inr result, clock') \<Rightarrow> (Inr result, clock'))"

text \<open>\<^verbatim>\<open>get_parser\<close>: a dictionary of the three parsers, looked up by platform id.\<close>

definition get_parser :: "string \<Rightarrow> parser option" where
  "get_parser plat =
     map_of [(''douyin'', DouyinParser), (''kuaishou'', KuaishouParser),
             (''xiaohongshu'', XiaohongshuParser)] plat"

section \<open>The request handler (\<^verbatim>\<open>handler\<close>)\<close>

text \<open>
  The body of a response is the JSON text of a dictionary; the model keeps the dictionary:
  \<open>Body_message m\<close> for \<^verbatim>\<open>{'message': m}\<close>, \<open>Body_failure m\<close> for
  \<^verbatim>\<open>{'success': False, 'message': m}\<close>, \<open>Body_result r\<close> for the dictionary of a parser.
\<close>

datatype body = Body_message message | Body_failure message | Body_result video_result

record http_response =
  statusCode :: nat
  response_headers :: "(string \<times> string) list"
  response_body :: body

definition CORS_HEADERS :: "(string \<times> string) list" where
  "CORS_HEADERS =
     [(''Access-Control-Allow-Origin'', ''*''),
      (''Access-Control-Allow-Headers'', ''Content-Type''),
      (''Access-Control-Allow-Methods'', ''POST, OPTIONS''),
      (''Content-Type'', ''application/json'')]"

definition respond :: "nat \<Rightarrow> body \<Rightarrow> http_response" where
  "respond code b = \<lparr>statusCode = code, response_headers = CORS_HEADERS, response_body = b\<rparr>"

text \<open>
  The event is a dictionary. Lines 412 to 415: a body that is a string is decoded, which may
  raise; any other body is taken as it is, a missing body is the empty dictionary.
\<close>

definition request_data :: "env \<Rightarrow> (string \<times> json) list \<Rightarrow> exn + json" where
  "request_data env event =
     (case map_of event ''body'' of
        Some (JStr s) \<Rightarrow> json_loads env s
      | Some v \<Rightarrow> Inr v
      | None \<Rightarrow> Inr (JObj []))"

text \<open>
  Lines 427 to 480: from the decoded request data to a response, or to an exception that
  reaches the outer \<^verbatim>\<open>except\<close>. The inner \<^verbatim>\<open>except ValueError\<close> answers 400 with the text of
  the exception.
\<close>

definition dispatch :: "env \<Rightarrow> json \<Rightarrow> nat \<Rightarrow> (exn + http_response) \<times> nat" where
  "dispatch env data clock =
     (case and_then (py_get data ''url'' (JStr '''')) py_strip of
        Inl e \<Rightarrow> (Inl e, clock)
      | Inr video_url \<Rightarrow>
          if video_url = [] then (Inr (respond 400 (Body_failure Url_required)), clock)
          else
            (case get_platform_from_url video_url of
               None \<Rightarrow> (Inr (respond 400 (Body_failure Unsupported_platform)), clock)
             | Some plat \<Rightarrow>
                 if plat = [] then (Inr (respond 400 (Body_failure Unsupported_platform)), clock)
                 else
                   (case get_parser plat of
                      None \<Rightarrow> (Inr (respond 500 (Body_failure (Not_implemented plat))), clock)
                    | Some p \<Rightarrow>
                        (case parse p env video_url clock of
                           (Inr result, clock') \<Rightarrow> (Inr (respond 200 (Body_result result)), clock')
                         | (Inl e, clock') \<Rightarrow>
                             if is_ValueError e
                             then (Inr (respond 400 (Body_failure (str_exn e))), clock')
                             else (Inl e, clock')))))"

text \<open>
  The body of the outer \<^verbatim>\<open>try\<close> (lines 391 to 480). The inner \<^verbatim>\<open>except\<close> of line 416 catches
  a \<open>JSONDecodeError\<close> of the decoding and answers 400; any other exception of the decoding
  leaves the body.
\<close>

definition handler_body :: "env \<Rightarrow> (string \<times> json) list \<Rightarrow> nat \<Rightarrow> (exn + http_response) \<times> nat" where
  "handler_body env event clock =
     (if map_of event ''httpMethod'' = Some (JStr ''OPTIONS'')
      then (Inr (respond 200 (Body_message CORS_preflight)), clock)
      else if map_of event ''httpMethod'' \<noteq> Some (JStr ''POST'')
      then (Inr (respond 405 (Body_failure Only_POST)), clock)
      else
        (case request_data env event of
           Inl e \<Rightarrow>
             if is_JSONDecodeError e
             then (Inr (respond 400 (Body_failure Bad_request_data)), clock)
             else (Inl e, clock)
         | Inr data \<Rightarrow> dispatch env data clock))"

text \<open>
  \<open>handler\<close>: an exception that leaves the body is answered with 500 and the fixed text of
  line 492 (lines 482 to 494; the traceback is printed, which the model leaves out). The
  \<^verbatim>\<open>context\<close> argument is not used.
\<close>

definition handler :: "env \<Rightarrow> (string \<times> json) list \<Rightarrow> nat \<Rightarrow> http_response \<times> nat" where
  "handler env event clock =
     (case handler_body env event clock of
        (Inr resp, clock') \<Rightarrow> (resp, clock')
      | (Inl e, clock') \<Rightarrow> (respond 500 (Body_failure Internal_error), clock'))"

section \<open>Example environments\<close>

text \<open>
  A network on which the first three GET requests time out and every later one is answered
  with status 200.
\<close>

definition flaky_get ::
  "nat \<Rightarrow> string \<Rightarrow> (string \<times> string) list \<Rightarrow> nat \<Rightarrow> bool \<Rightarrow> exn + response" where
  "flaky_get clock url hdrs timeout allow_redirects =
     (if clock = 0 then Inl (RequestException (Text ''first timeout''))
      else if clock = 1 then Inl (RequestException (Text ''second timeout''))
      else if clock = 2 then Inl (RequestException (Text ''third timeout''))
      else Inr \<lparr>status_code = 200, headers = [], resp_text = ''ok''\<rparr>)"

definition flaky_env :: env where
  "flaky_env =
     \<lparr>session_get = flaky_get, json_loads = (\<lambda>s. Inl JSONDecodeError),
      truediv = (\<lambda>v n. Inl TypeError), str_of = (\<lambda>v. ''?'')\<rparr>"

text \<open>
  A server that answers every GET with a fixed response: \<open>307 Temporary Redirect\<close> with a
  \<open>Location\<close> header, or \<open>503 Service Unavailable\<close>.
\<close>

definition redirect_307 :: response where
  "redirect_307 =
     \<lparr>status_code = 307, headers = [(''Location'', ''https://www.douyin.com/video/1'')],
      resp_text = ''''\<rparr>"

definition redirect_302 :: response where
  "redirect_302 =
     \<lparr>status_code = 302, headers = [(''Location'', ''https://www.douyin.com/video/1'')],
      resp_text = ''''\<rparr>"

definition unavailable_503 :: response where
  "unavailable_503 = \<lparr>status_code = 503, headers = [], resp_text = ''''\<rparr>"

definition fixed_env :: "response \<Rightarrow> env" where
  "fixed_env r =
     \<lparr>session_get = (\<lambda>clock url hdrs timeout allow_redirects. Inr r),
      json_loads = (\<lambda>s. Inl JSONDecodeError),
      truediv = (\<lambda>v n. Inl TypeError), str_of = (\<lambda>v. ''?'')\<rparr>"

text \<open>A page without any data, served with status 200.\<close>

definition ok_200 :: response where
  "ok_200 = \<lparr>status_code = 200, headers = [], resp_text = ''<html></html>''\<rparr>"

text \<open>
  A mocked world for whole requests. Three pages are reachable: a video page of the first
  platform whose API answers with one item, the API for the identifier \<open>1\<close>, which answers
  with an item that is not an object, and a page of the second platform whose data carries a
  number as the source. Every other request fails to connect. \<open>json_loads\<close> knows the JSON
  texts that occur, each with the value \<^verbatim>\<open>json.loads\<close> gives it, raises \<open>RecursionError\<close> on a
  text of a thousand opening brackets, as the decoder does under the default recursion limit,
  and \<open>JSONDecodeError\<close> on anything else (the examples use one such text, which is not
  JSON); division is defined on integers; \<open>str_of\<close> is not needed by the examples.
\<close>

definition api_text :: string where
  \<open>api_text = ''{"item_list": [{"desc": "clip", "video": {"play_addr": {"url_list": ["https://aweme.snssdk.com/aweme/v1/play/?video_id=v0200&watermark=1"]}, "duration": 12345}, "author": {"nickname": "doro"}}]}''\<close>

definition api_json :: json where
  "api_json =
     JObj [(''item_list'', JArr [JObj
       [(''desc'', JStr ''clip''),
        (''video'', JObj
           [(''play_addr'', JObj [(''url_list'',
               JArr [JStr ''https://aweme.snssdk.com/aweme/v1/play/?video_id=v0200&watermark=1''])]),
            (''duration'', JInt 12345)]),
        (''author'', JObj [(''nickname'', JStr ''doro'')])]])]"

definition bad_item_text :: string where
  \<open>bad_item_text = ''{"item_list": [1]}''\<close>

definition bad_item_json :: json where
  "bad_item_json = JObj [(''item_list'', JArr [JInt 1])]"

definition number_src_page :: string where
  \<open>number_src_page = ''<script>window.pageData = {"videoInfo": {"src": 1}};</script>''\<close>

definition number_src_text :: string where
  \<open>number_src_text = ''{"videoInfo": {"src": 1}}''\<close>

definition number_src_json :: json where
  "number_src_json = JObj [(''videoInfo'', JObj [(''src'', JInt 1)])]"

definition body_video :: string where
  \<open>body_video = ''{"url": "https://www.douyin.com/video/7123456789012345678"}''\<close>

definition body_bad_item :: string where
  \<open>body_bad_item = ''{"url": "https://www.douyin.com/video/1"}''\<close>

definition body_number :: string where
  \<open>body_number = ''{"url": 5}''\<close>

definition mock_pages :: "(string \<times> response) list" where
  "mock_pages =
     [(''https://www.douyin.com/video/7123456789012345678'', ok_200),
      (douyin_api_url ''7123456789012345678'',
         \<lparr>status_code = 200, headers = [], resp_text = api_text\<rparr>),
      (''https://www.douyin.com/video/1'', ok_200),
      (douyin_api_url ''1'', \<lparr>status_code = 200, headers = [], resp_text = bad_item_text\<rparr>),
      (''https://www.kuaishou.com/short-video/3xsrc1'',
         \<lparr>status_code = 200, headers = [], resp_text = number_src_page\<rparr>)]"

definition mock_json :: "(string \<times> json) list" where
  "mock_json =
     [(api_text, api_json),
      (bad_item_text, bad_item_json),
      (number_src_text, number_src_json),
      (body_video, JObj [(''url'', JStr ''https://www.douyin.com/video/7123456789012345678'')]),
      (body_bad_item, JObj [(''url'', JStr ''https://www.douyin.com/video/1'')]),
      (body_number, JObj [(''url'', JInt 5)])]"

fun mock_truediv :: "json \<Rightarrow> int \<Rightarrow> exn + json" where
  "mock_truediv (JInt i) n = Inr (JFloat (real_of_int i / real_of_int n))"
| "mock_truediv v n = Inl TypeError"

definition deep_body :: string where
  "deep_body = replicate 1000 (CHR ''['')"

definition mock_loads :: "string \<Rightarrow> exn + json" where
  "mock_loads s =
     (if s = deep_body then Inl RecursionError
      else case map_of mock_json s of Some v \<Rightarrow> Inr v | None \<Rightarrow> Inl JSONDecodeError)"

definition mock_env :: env where
  "mock_env =
     \<lparr>session_get = (\<lambda>clock url hdrs timeout allow_redirects.
        case map_of mock_pages url of
          Some r \<Rightarrow> Inr r
        | None \<Rightarrow> Inl (RequestException (Text ''connection refused''))),
      json_loads = mock_loads,
      truediv = mock_truediv,
      str_of = (\<lambda>v. ''?'')\<rparr>"

text \<open>The events of the examples.\<close>

definition post_event :: "json \<Rightarrow> (string \<times> json) list" where
  "post_event b = [(''httpMethod'', JStr ''POST''), (''body'', b)]"


definition empty_no_mark :: json where
  "empty_no_mark =
     JObj [(''videoInfo'', JObj [(''srcNoMark'', JStr []),
                                  (''src'', JStr ''https://v2.kwaicdn.com/clip.mp4'')])]"

text \<open>The results that the parsers give in the mocked world and on the page state above.\<close>

definition video_record :: video_result where
  "video_record =
     \<lparr>success = True, title = JStr ''clip'',
      download_url = JStr ''https://aweme.snssdk.com/aweme/v1/play/?video_id=v0200&watermark=0'',
      platform_name = name_douyin, video_id = Some ''7123456789012345678'',
      author = JStr ''doro'', duration = Some (JFloat (12345 / 1000)),
      size_text = size_unknown, filename = ''douyin_7123456789012345678.mp4''\<rparr>"

definition number_src_record :: video_result where
  "number_src_record =
     \<lparr>success = True, title = JStr (name_kuaishou @ video_suffix), download_url = JInt 1,
      platform_name = name_kuaishou, video_id = None, author = JStr [], duration = None,
      size_text = size_unknown, filename = ''kuaishou_video.mp4''\<rparr>"


section \<open>Properties of classification\<close>

lemma contains_sublist: "contains d s = sublist d s"
  by (induction s) (simp_all add: sublist_Cons_right)

lemma domains_loop_iff: "domains_loop ds u = (\<exists>d \<in> set ds. sublist d u)"
  by (induction ds) (simp_all add: contains_sublist)

lemma platforms_loop_find:
  "platforms_loop reg u =
     map_option fst (find (\<lambda>(platform, domains). \<exists>d \<in> set domains. sublist d u) reg)"
  by (induction reg u rule: platforms_loop.induct) (simp_all add: domains_loop_iff)

lemma platforms_loop_None:
  "platforms_loop reg u = None \<longleftrightarrow>
     (\<forall>(platform, domains) \<in> set reg. \<forall>d \<in> set domains. \<not> sublist d u)"
  by (induction reg u rule: platforms_loop.induct) (auto simp: domains_loop_iff)

lemma platforms_loop_only:
  assumes "(p, ds) \<in> set reg" and "\<exists>d \<in> set ds. sublist d u"
    and "\<forall>(q, es) \<in> set reg. q \<noteq> p \<longrightarrow> (\<forall>e \<in> set es. \<not> sublist e u)"
  shows "platforms_loop reg u = Some p"
  using assms
proof (induction reg u rule: platforms_loop.induct)
  case (1 url_lower)
  then show ?case by simp
next
  case (2 platform domains rest url_lower)
  show ?case
  proof (cases "domains_loop domains url_lower")
    case True
    with "2.prems"(3) have "platform = p"
      by (auto simp: domains_loop_iff)
    with True show ?thesis by simp
  next
    case False
    with "2.prems"(1,2) have "(p, ds) \<in> set rest"
      by (auto simp: domains_loop_iff)
    with False "2.IH" "2.prems"(2,3) show ?thesis by simp
  qed
qed

lemma platforms_loop_Some:
  "platforms_loop reg u = Some p \<Longrightarrow> \<exists>ds. (p, ds) \<in> set reg \<and> (\<exists>d \<in> set ds. sublist d u)"
  by (induction reg u rule: platforms_loop.induct) (auto simp: domains_loop_iff split: if_splits)

text \<open>
  C2. Classification lower-cases the URL and returns the first platform, in the order of the
  registry, one of whose domains occurs in the lowered URL as a substring; it returns \<open>None\<close>
  exactly when no configured domain occurs. Two URLs that differ only in letter case are
  classified alike, a URL in which only the domains of one platform occur is classified to
  that platform, and a platform that is returned has a domain that occurs in the lowered URL.
\<close>

theorem get_platform_from_url_first_match:
  "get_platform_from_url url =
     map_option fst
       (find (\<lambda>(platform, domains). \<exists>d \<in> set domains. sublist d (lower url)) SUPPORTED_PLATFORMS)
   \<and> (get_platform_from_url url = None \<longleftrightarrow>
        (\<forall>(platform, domains) \<in> set SUPPORTED_PLATFORMS.
           \<forall>d \<in> set domains. \<not> sublist d (lower url)))
   \<and> (lower url' = lower url \<longrightarrow> get_platform_from_url url' = get_platform_from_url url)
   \<and> ((p, ds) \<in> set SUPPORTED_PLATFORMS \<and> (\<exists>d \<in> set ds. sublist d (lower url)) \<and>
        (\<forall>(q, es) \<in> set SUPPORTED_PLATFORMS. q \<noteq> p \<longrightarrow> (\<forall>e \<in> set es. \<not> sublist e (lower url)))
        \<longrightarrow> get_platform_from_url url = Some p)
   \<and> (get_platform_from_url url = Some p
        \<longrightarrow> (\<exists>ds. (p, ds) \<in> set SUPPORTED_PLATFORMS \<and> (\<exists>d \<in> set ds. sublist d (lower url))))"
proof (intro conjI impI)
  show "get_platform_from_url url =
     map_option fst
       (find (\<lambda>(platform, domains). \<exists>d \<in> set domains. sublist d (lower url)) SUPPORTED_PLATFORMS)"
    unfolding get_platform_from_url_def by (rule platforms_loop_find)
  show "get_platform_from_url url = None \<longleftrightarrow>
        (\<forall>(platform, domains) \<in> set SUPPORTED_PLATFORMS.
           \<forall>d \<in> set domains. \<not> sublist d (lower url))"
    unfolding get_platform_from_url_def by (rule platforms_loop_None)
next
  assume "lower url' = lower url"
  then show "get_platform_from_url url' = get_platform_from_url url"
    by (simp add: get_platform_from_url_def)
next
  assume "(p, ds) \<in> set SUPPORTED_PLATFORMS \<and> (\<exists>d \<in> set ds. sublist d (lower url)) \<and>
        (\<forall>(q, es) \<in> set SUPPORTED_PLATFORMS. q \<noteq> p \<longrightarrow> (\<forall>e \<in> set es. \<not> sublist e (lower url)))"
  then show "get_platform_from_url url = Some p"
    unfolding get_platform_from_url_def by (elim conjE) (rule platforms_loop_only)
next
  assume "get_platform_from_url url = Some p"
  then show "\<exists>ds. (p, ds) \<in> set SUPPORTED_PLATFORMS \<and> (\<exists>d \<in> set ds. sublist d (lower url))"
    unfolding get_platform_from_url_def by (rule platforms_loop_Some)
qed

theorem get_platform_from_url_first_match_witness:
  "lower ''https://v.douyin.com/AbC/'' = lower ''HTTPS://V.DouYin.COM/abc/'' \<and>
   get_platform_from_url ''HTTPS://V.DouYin.COM/abc/'' = Some ''douyin'' \<and>
   get_platform_from_url ''https://v.douyin.com/AbC/'' = Some ''douyin'' \<and>
   get_platform_from_url ''HTTPS://V.DouYin.COM/abc/'' \<noteq> None"
proof -
  have same: "lower ''https://v.douyin.com/AbC/'' = lower ''HTTPS://V.DouYin.COM/abc/''"
    by code_simp
  have only:
    "(''douyin'', [''douyin.com'', ''dy.com'', ''iesdouyin.com'']) \<in> set SUPPORTED_PLATFORMS \<and>
     (\<exists>d \<in> set [''douyin.com'', ''dy.com'', ''iesdouyin.com''].
        sublist d (lower ''HTTPS://V.DouYin.COM/abc/'')) \<and>
     (\<forall>(q, es) \<in> set SUPPORTED_PLATFORMS. q \<noteq> ''douyin'' \<longrightarrow>
        (\<forall>e \<in> set es. \<not> sublist e (lower ''HTTPS://V.DouYin.COM/abc/'')))"
    by code_simp
  note inst = get_platform_from_url_first_match
    [of "''HTTPS://V.DouYin.COM/abc/''" "''https://v.douyin.com/AbC/''" "''douyin''"
        "[''douyin.com'', ''dy.com'', ''iesdouyin.com'']"]
  from inst only have a: "get_platform_from_url ''HTTPS://V.DouYin.COM/abc/'' = Some ''douyin''"
    by blast
  from inst same have "get_platform_from_url ''https://v.douyin.com/AbC/'' =
      get_platform_from_url ''HTTPS://V.DouYin.COM/abc/''"
    by blast
  with a same show ?thesis by simp
qed

section \<open>Properties of HTTP retrieval\<close>

lemma upt_three: "[0..<3] = [0, 1, 2]"
  by (simp add: upt_rec)

lemma make_request_all_fail:
  assumes "\<forall>k < MAX_RETRIES. \<exists>e. attempt_get env (clock + k) url
          (case hdrs of None \<Rightarrow> DEFAULT_HEADERS | Some h \<Rightarrow> h) follow_redirects = Inl e
        \<and> is_RequestException e"
  shows "make_request env url hdrs follow_redirects clock =
          (attempt_get env (clock + (MAX_RETRIES - 1)) url
             (case hdrs of None \<Rightarrow> DEFAULT_HEADERS | Some h \<Rightarrow> h) follow_redirects,
           clock + MAX_RETRIES)"
proof -
  let ?att = "\<lambda>t. attempt_get env t url
    (case hdrs of None \<Rightarrow> DEFAULT_HEADERS | Some h \<Rightarrow> h) follow_redirects"
  from assms obtain e0 where e0: "?att clock = Inl e0" "is_RequestException e0"
    by (auto simp: MAX_RETRIES_def dest: spec[of _ 0])
  from assms obtain e1 where e1: "?att (Suc clock) = Inl e1" "is_RequestException e1"
    by (auto simp: MAX_RETRIES_def dest: spec[of _ 1])
  from assms obtain e2 where e2: "?att (Suc (Suc clock)) = Inl e2" "is_RequestException e2"
    by (auto simp: MAX_RETRIES_def dest: spec[of _ 2])
  have "clock + (MAX_RETRIES - 1) = Suc (Suc clock)" "clock + MAX_RETRIES = Suc (Suc (Suc clock))"
    by (simp_all add: MAX_RETRIES_def)
  with e0 e1 e2 show ?thesis
    by (simp add: make_request_def MAX_RETRIES_def upt_three)
qed

lemma make_request_first_success:
  assumes "k < MAX_RETRIES"
    and "\<forall>j < k. \<exists>e. attempt_get env (clock + j) url
          (case hdrs of None \<Rightarrow> DEFAULT_HEADERS | Some h \<Rightarrow> h) follow_redirects = Inl e
        \<and> is_RequestException e"
    and "attempt_get env (clock + k) url
          (case hdrs of None \<Rightarrow> DEFAULT_HEADERS | Some h \<Rightarrow> h) follow_redirects = Inr r"
  shows "make_request env url hdrs follow_redirects clock = (Inr r, clock + k + 1)"
proof -
  let ?att = "\<lambda>t. attempt_get env t url
    (case hdrs of None \<Rightarrow> DEFAULT_HEADERS | Some h \<Rightarrow> h) follow_redirects"
  from assms(1) have "k = 0 \<or> k = 1 \<or> k = 2"
    unfolding MAX_RETRIES_def by arith
  then consider "k = 0" | "k = 1" | "k = 2"
    by blast
  then show ?thesis
  proof cases
    case 1
    with assms(3) show ?thesis
      by (simp add: make_request_def MAX_RETRIES_def upt_three)
  next
    case 2
    with assms(2) obtain e0 where "?att clock = Inl e0" "is_RequestException e0"
      by auto
    with 2 assms(3) show ?thesis
      by (simp add: make_request_def MAX_RETRIES_def upt_three)
  next
    case 3
    with assms(2) obtain e0 where e0: "?att clock = Inl e0" "is_RequestException e0"
      by (auto dest: spec[of _ 0])
    from 3 assms(2) obtain e1 where "?att (Suc clock) = Inl e1" "is_RequestException e1"
      by (auto dest: spec[of _ 1])
    with e0 3 assms(3) show ?thesis
      by (simp add: make_request_def MAX_RETRIES_def upt_three)
  qed
qed

lemma flaky_attempts:
  "attempt_get flaky_env clock u h f =
     (if clock = 0 then Inl (RequestException (Text ''first timeout''))
      else if clock = 1 then Inl (RequestException (Text ''second timeout''))
      else if clock = 2 then Inl (RequestException (Text ''third timeout''))
      else Inr \<lparr>status_code = 200, headers = [], resp_text = ''ok''\<rparr>)"
  by (simp add: attempt_get_def flaky_env_def flaky_get_def raise_for_status_def)

text \<open>
  C3, as the claim states it: with \<open>MAX_RETRIES = 3\<close>, three retries after the first attempt
  would be four GET requests. On a network whose first three requests time out and whose
  fourth would succeed, \<open>make_request\<close> stops after three requests (two retries) and raises
  the third failure.
\<close>

theorem make_request_retries_counterexample:
  "MAX_RETRIES = 3 \<and>
   attempt_get flaky_env 3 ''https://v.kuaishou.com/a1'' DEFAULT_HEADERS True =
     Inr \<lparr>status_code = 200, headers = [], resp_text = ''ok''\<rparr> \<and>
   make_request flaky_env ''https://v.kuaishou.com/a1'' None True 0 =
     (Inl (RequestException (Text ''third timeout'')), 3)"
  by (simp add: flaky_attempts make_request_def MAX_RETRIES_def upt_three)

text \<open>
  C3, amended. \<open>make_request\<close> makes at most \<open>MAX_RETRIES\<close> attempts in all, the first one
  included. When each of them fails with a request exception, exactly \<open>MAX_RETRIES\<close> GET requests
  are sent and the failure of the last one is the result. When attempt \<open>k < MAX_RETRIES\<close>
  (the last one included) is the first to succeed, its response is returned and no further
  request is sent.
\<close>

theorem make_request_attempts:
  "((\<forall>k < MAX_RETRIES. \<exists>e. attempt_get env (clock + k) url
          (case hdrs of None \<Rightarrow> DEFAULT_HEADERS | Some h \<Rightarrow> h) follow_redirects = Inl e
        \<and> is_RequestException e)
    \<longrightarrow> make_request env url hdrs follow_redirects clock =
          (attempt_get env (clock + (MAX_RETRIES - 1)) url
             (case hdrs of None \<Rightarrow> DEFAULT_HEADERS | Some h \<Rightarrow> h) follow_redirects,
           clock + MAX_RETRIES))
   \<and> (k < MAX_RETRIES \<and>
       (\<forall>j < k. \<exists>e. attempt_get env (clock + j) url
          (case hdrs of None \<Rightarrow> DEFAULT_HEADERS | Some h \<Rightarrow> h) follow_redirects = Inl e
        \<and> is_RequestException e) \<and>
       attempt_get env (clock + k) url
          (case hdrs of None \<Rightarrow> DEFAULT_HEADERS | Some h \<Rightarrow> h) follow_redirects = Inr r
    \<longrightarrow> make_request env url hdrs follow_redirects clock = (Inr r, clock + k + 1))"
proof (intro conjI impI)
  assume "\<forall>k < MAX_RETRIES. \<exists>e. attempt_get env (clock + k) url
          (case hdrs of None \<Rightarrow> DEFAULT_HEADERS | Some h \<Rightarrow> h) follow_redirects = Inl e
        \<and> is_RequestException e"
  then show "make_request env url hdrs follow_redirects clock =
          (attempt_get env (clock + (MAX_RETRIES - 1)) url
             (case hdrs of None \<Rightarrow> DEFAULT_HEADERS | Some h \<Rightarrow> h) follow_redirects,
           clock + MAX_RETRIES)"
    by (rule make_request_all_fail)
next
  assume "k < MAX_RETRIES \<and>
       (\<forall>j < k. \<exists>e. attempt_get env (clock + j) url
          (case hdrs of None \<Rightarrow> DEFAULT_HEADERS | Some h \<Rightarrow> h) follow_redirects = Inl e
        \<and> is_RequestException e) \<and>
       attempt_get env (clock + k) url
          (case hdrs of None \<Rightarrow> DEFAULT_HEADERS | Some h \<Rightarrow> h) follow_redirects = Inr r"
  then show "make_request env url hdrs follow_redirects clock = (Inr r, clock + k + 1)"
    by (elim conjE) (rule make_request_first_success)
qed

theorem make_request_attempts_witness:
  "make_request flaky_env ''https://v.kuaishou.com/a1'' None True 0 =
     (Inl (RequestException (Text ''third timeout'')), 3) \<and>
   make_request flaky_env ''https://v.kuaishou.com/a1'' None True 1 =
     (Inr \<lparr>status_code = 200, headers = [], resp_text = ''ok''\<rparr>, 4)"
proof -
  have all: "\<forall>k < MAX_RETRIES. \<exists>e. attempt_get flaky_env (0 + k) ''https://v.kuaishou.com/a1''
          (case None of None \<Rightarrow> DEFAULT_HEADERS | Some h \<Rightarrow> h) True = Inl e
        \<and> is_RequestException e"
  proof (intro allI impI)
    fix k assume "k < MAX_RETRIES"
    then have "k = 0 \<or> k = 1 \<or> k = 2"
      unfolding MAX_RETRIES_def by arith
    then show "\<exists>e. attempt_get flaky_env (0 + k) ''https://v.kuaishou.com/a1''
          (case None of None \<Rightarrow> DEFAULT_HEADERS | Some h \<Rightarrow> h) True = Inl e
        \<and> is_RequestException e"
      by (auto simp: flaky_attempts)
  qed
  have last: "(2::nat) < MAX_RETRIES \<and>
       (\<forall>j < 2. \<exists>e. attempt_get flaky_env (1 + j) ''https://v.kuaishou.com/a1''
          (case None of None \<Rightarrow> DEFAULT_HEADERS | Some h \<Rightarrow> h) True = Inl e
        \<and> is_RequestException e) \<and>
       attempt_get flaky_env (1 + 2) ''https://v.kuaishou.com/a1''
          (case None of None \<Rightarrow> DEFAULT_HEADERS | Some h \<Rightarrow> h) True =
         Inr \<lparr>status_code = 200, headers = [], resp_text = ''ok''\<rparr>"
  proof (intro conjI allI impI)
    fix j :: nat assume "j < 2"
    then have "j = 0 \<or> j = 1" by arith
    then show "\<exists>e. attempt_get flaky_env (1 + j) ''https://v.kuaishou.com/a1''
          (case None of None \<Rightarrow> DEFAULT_HEADERS | Some h \<Rightarrow> h) True = Inl e
        \<and> is_RequestException e"
      by (auto simp: flaky_attempts)
  qed (simp_all add: MAX_RETRIES_def flaky_attempts)
  from all
    make_request_attempts [of flaky_env 0 "''https://v.kuaishou.com/a1''" None True]
  have a: "make_request flaky_env ''https://v.kuaishou.com/a1'' None True 0 =
     (attempt_get flaky_env (0 + (MAX_RETRIES - 1)) ''https://v.kuaishou.com/a1''
        (case None of None \<Rightarrow> DEFAULT_HEADERS | Some h \<Rightarrow> h) True, 0 + MAX_RETRIES)"
    by blast
  from last
    make_request_attempts [of flaky_env 1 "''https://v.kuaishou.com/a1''" None True 2
      "\<lparr>status_code = 200, headers = [], resp_text = ''ok''\<rparr>"]
  have b: "make_request flaky_env ''https://v.kuaishou.com/a1'' None True 1 =
     (Inr \<lparr>status_code = 200, headers = [], resp_text = ''ok''\<rparr>, 1 + 2 + 1)"
    by blast
  from a b show ?thesis
    by (simp add: MAX_RETRIES_def flaky_attempts)
qed

lemma attempt_get_status:
  assumes "session_get env clock url h REQUEST_TIMEOUT follow_redirects = Inr r"
  shows "attempt_get env clock url h follow_redirects =
     (if 400 \<le> status_code r \<and> status_code r < 600 then Inl (HTTPError (status_code r))
      else Inr r)"
  using assms by (simp add: attempt_get_def raise_for_status_def)

lemma make_request_returned:
  assumes "session_get env clock url (case hdrs of None \<Rightarrow> DEFAULT_HEADERS | Some h \<Rightarrow> h)
      REQUEST_TIMEOUT follow_redirects = Inr r"
    and "status_code r < 400 \<or> 600 \<le> status_code r"
  shows "make_request env url hdrs follow_redirects clock = (Inr r, clock + 1)"
proof -
  from assms have "attempt_get env (clock + 0) url
      (case hdrs of None \<Rightarrow> DEFAULT_HEADERS | Some h \<Rightarrow> h) follow_redirects = Inr r"
    by (auto simp: attempt_get_status)
  from make_request_first_success [OF _ _ this] show ?thesis
    by (simp add: MAX_RETRIES_def)
qed

lemma make_request_all_error_status:
  assumes "\<forall>k < MAX_RETRIES. \<exists>r. session_get env (clock + k) url
      (case hdrs of None \<Rightarrow> DEFAULT_HEADERS | Some h \<Rightarrow> h) REQUEST_TIMEOUT follow_redirects = Inr r
      \<and> 400 \<le> status_code r \<and> status_code r < 600"
  shows "\<exists>r. session_get env (clock + (MAX_RETRIES - 1)) url
      (case hdrs of None \<Rightarrow> DEFAULT_HEADERS | Some h \<Rightarrow> h) REQUEST_TIMEOUT follow_redirects = Inr r
      \<and> make_request env url hdrs follow_redirects clock =
          (Inl (HTTPError (status_code r)), clock + MAX_RETRIES)"
proof -
  let ?h = "case hdrs of None \<Rightarrow> DEFAULT_HEADERS | Some h \<Rightarrow> h"
  have fails: "\<forall>k < MAX_RETRIES. \<exists>e. attempt_get env (clock + k) url ?h follow_redirects = Inl e
      \<and> is_RequestException e"
  proof (intro allI impI)
    fix k assume "k < MAX_RETRIES"
    with assms obtain r where
      "session_get env (clock + k) url ?h REQUEST_TIMEOUT follow_redirects = Inr r"
      "400 \<le> status_code r" "status_code r < 600"
      by blast
    then show "\<exists>e. attempt_get env (clock + k) url ?h follow_redirects = Inl e
        \<and> is_RequestException e"
      by (simp add: attempt_get_status)
  qed
  have "MAX_RETRIES - 1 < MAX_RETRIES"
    by (simp add: MAX_RETRIES_def)
  with assms obtain r where r:
    "session_get env (clock + (MAX_RETRIES - 1)) url ?h REQUEST_TIMEOUT follow_redirects = Inr r"
    "400 \<le> status_code r" "status_code r < 600"
    by blast
  then have "attempt_get env (clock + (MAX_RETRIES - 1)) url ?h follow_redirects =
      Inl (HTTPError (status_code r))"
    by (simp add: attempt_get_status)
  with make_request_all_fail [OF fails] r(1) show ?thesis
    by simp
qed

text \<open>
  C7, as the claim states it: a response with status 307 is neither 2xx nor 301 or 302, yet
  \<open>make_request\<close> (here with redirects not followed) returns it from the first attempt
  instead of treating it as a failure.
\<close>

theorem make_request_non_2xx_counterexample:
  "make_request (fixed_env redirect_307) ''https://v.douyin.com/iRNBho6u/'' None False 0 =
     (Inr \<lparr>status_code = 307, headers = [(''Location'', ''https://www.douyin.com/video/1'')],
          resp_text = ''''\<rparr>, 1)"
  by (simp add: make_request_def MAX_RETRIES_def upt_three attempt_get_def raise_for_status_def
      fixed_env_def redirect_307_def)

text \<open>
  C7, amended. A response whose status code lies in 400 to 599 is a network-level failure: the
  attempt raises \<open>HTTPError\<close>, which is retried, and when all \<open>MAX_RETRIES\<close> attempts end so the
  last one is raised. Every other response, whatever \<open>follow_redirects\<close> is, is returned as it
  is, from the attempt that received it: in particular a 301 or 302 response received with
  redirects not followed, with its status code and its headers.
\<close>

theorem make_request_status:
  "(session_get env clock url (case hdrs of None \<Rightarrow> DEFAULT_HEADERS | Some h \<Rightarrow> h)
        REQUEST_TIMEOUT follow_redirects = Inr r \<and>
      (status_code r < 400 \<or> 600 \<le> status_code r)
    \<longrightarrow> make_request env url hdrs follow_redirects clock = (Inr r, clock + 1))
   \<and> (session_get env clock url (case hdrs of None \<Rightarrow> DEFAULT_HEADERS | Some h \<Rightarrow> h)
        REQUEST_TIMEOUT False = Inr r \<and>
      (status_code r = 301 \<or> status_code r = 302)
    \<longrightarrow> make_request env url hdrs False clock = (Inr r, clock + 1))
   \<and> (session_get env clock url (case hdrs of None \<Rightarrow> DEFAULT_HEADERS | Some h \<Rightarrow> h)
        REQUEST_TIMEOUT follow_redirects = Inr r \<and>
      400 \<le> status_code r \<and> status_code r < 600
    \<longrightarrow> attempt_get env clock url (case hdrs of None \<Rightarrow> DEFAULT_HEADERS | Some h \<Rightarrow> h)
          follow_redirects = Inl (HTTPError (status_code r))
        \<and> is_RequestException (HTTPError (status_code r)))
   \<and> ((\<forall>k < MAX_RETRIES. \<exists>r. session_get env (clock + k) url
          (case hdrs of None \<Rightarrow> DEFAULT_HEADERS | Some h \<Rightarrow> h) REQUEST_TIMEOUT follow_redirects = Inr r
          \<and> 400 \<le> status_code r \<and> status_code r < 600)
    \<longrightarrow> (\<exists>r. session_get env (clock + (MAX_RETRIES - 1)) url
          (case hdrs of None \<Rightarrow> DEFAULT_HEADERS | Some h \<Rightarrow> h) REQUEST_TIMEOUT follow_redirects = Inr r
          \<and> make_request env url hdrs follow_redirects clock =
              (Inl (HTTPError (status_code r)), clock + MAX_RETRIES)))"
proof (intro conjI impI)
  assume "session_get env clock url (case hdrs of None \<Rightarrow> DEFAULT_HEADERS | Some h \<Rightarrow> h)
        REQUEST_TIMEOUT follow_redirects = Inr r \<and>
      (status_code r < 400 \<or> 600 \<le> status_code r)"
  then show "make_request env url hdrs follow_redirects clock = (Inr r, clock + 1)"
    by (blast intro: make_request_returned)
next
  assume a: "session_get env clock url (case hdrs of None \<Rightarrow> DEFAULT_HEADERS | Some h \<Rightarrow> h)
        REQUEST_TIMEOUT False = Inr r \<and>
      (status_code r = 301 \<or> status_code r = 302)"
  then have "status_code r < 400 \<or> 600 \<le> status_code r"
    by auto
  with a show "make_request env url hdrs False clock = (Inr r, clock + 1)"
    by (blast intro: make_request_returned)
next
  assume a: "session_get env clock url (case hdrs of None \<Rightarrow> DEFAULT_HEADERS | Some h \<Rightarrow> h)
        REQUEST_TIMEOUT follow_redirects = Inr r \<and>
      400 \<le> status_code r \<and> status_code r < 600"
  then show "attempt_get env clock url (case hdrs of None \<Rightarrow> DEFAULT_HEADERS | Some h \<Rightarrow> h)
          follow_redirects = Inl (HTTPError (status_code r))"
    by (simp add: attempt_get_status)
  show "is_RequestException (HTTPError (status_code r))"
    by simp
next
  assume "\<forall>k < MAX_RETRIES. \<exists>r. session_get env (clock + k) url
          (case hdrs of None \<Rightarrow> DEFAULT_HEADERS | Some h \<Rightarrow> h) REQUEST_TIMEOUT follow_redirects = Inr r
          \<and> 400 \<le> status_code r \<and> status_code r < 600"
  then show "\<exists>r. session_get env (clock + (MAX_RETRIES - 1)) url
          (case hdrs of None \<Rightarrow> DEFAULT_HEADERS | Some h \<Rightarrow> h) REQUEST_TIMEOUT follow_redirects = Inr r
          \<and> make_request env url hdrs follow_redirects clock =
              (Inl (HTTPError (status_code r)), clock + MAX_RETRIES)"
    by (rule make_request_all_error_status)
qed

theorem make_request_status_witness:
  "make_request (fixed_env redirect_302) ''https://v.douyin.com/iRNBho6u/'' None False 0 =
     (Inr redirect_302, 1) \<and>
   status_code redirect_302 = 302 \<and>
   map_of (headers redirect_302) ''Location'' = Some ''https://www.douyin.com/video/1'' \<and>
   attempt_get (fixed_env unavailable_503) 0 ''https://v.douyin.com/iRNBho6u/'' DEFAULT_HEADERS True =
     Inl (HTTPError 503) \<and>
   make_request (fixed_env unavailable_503) ''https://v.douyin.com/iRNBho6u/'' None True 0 =
     (Inl (HTTPError 503), 3)"
proof -
  let ?u = "''https://v.douyin.com/iRNBho6u/''"
  have get302: "session_get (fixed_env redirect_302) 0 ?u
      (case None of None \<Rightarrow> DEFAULT_HEADERS | Some h \<Rightarrow> h) REQUEST_TIMEOUT False = Inr redirect_302 \<and>
      (status_code redirect_302 = 301 \<or> status_code redirect_302 = 302)"
    by (simp add: fixed_env_def redirect_302_def)
  have get503: "session_get (fixed_env unavailable_503) 0 ?u
      (case None of None \<Rightarrow> DEFAULT_HEADERS | Some h \<Rightarrow> h) REQUEST_TIMEOUT True = Inr unavailable_503 \<and>
      400 \<le> status_code unavailable_503 \<and> status_code unavailable_503 < 600"
    by (simp add: fixed_env_def unavailable_503_def)
  have all503: "\<forall>k < MAX_RETRIES. \<exists>r. session_get (fixed_env unavailable_503) (0 + k) ?u
      (case None of None \<Rightarrow> DEFAULT_HEADERS | Some h \<Rightarrow> h) REQUEST_TIMEOUT True = Inr r
      \<and> 400 \<le> status_code r \<and> status_code r < 600"
    by (simp add: fixed_env_def unavailable_503_def)
  from get302 make_request_status [of "fixed_env redirect_302" 0 ?u None False redirect_302]
  have a: "make_request (fixed_env redirect_302) ?u None False 0 = (Inr redirect_302, 0 + 1)"
    by blast
  from get503 make_request_status [of "fixed_env unavailable_503" 0 ?u None True unavailable_503]
  have b: "attempt_get (fixed_env unavailable_503) 0 ?u
      (case None of None \<Rightarrow> DEFAULT_HEADERS | Some h \<Rightarrow> h) True =
      Inl (HTTPError (status_code unavailable_503))"
    by blast
  from all503 make_request_status [of "fixed_env unavailable_503" 0 ?u None True unavailable_503]
  have c: "\<exists>r. session_get (fixed_env unavailable_503) (0 + (MAX_RETRIES - 1)) ?u
      (case None of None \<Rightarrow> DEFAULT_HEADERS | Some h \<Rightarrow> h) REQUEST_TIMEOUT True = Inr r
      \<and> make_request (fixed_env unavailable_503) ?u None True 0 =
          (Inl (HTTPError (status_code r)), 0 + MAX_RETRIES)"
    by blast
  from c have c': "make_request (fixed_env unavailable_503) ?u None True 0 = (Inl (HTTPError 503), 3)"
    by (auto simp: fixed_env_def unavailable_503_def MAX_RETRIES_def)
  from a b c' show ?thesis
    by (simp add: redirect_302_def unavailable_503_def)
qed

section \<open>Properties of the watermark rewrite\<close>

lemma replace_absent:
  "\<not> sublist (a # old) s \<Longrightarrow> replace (a # old) new s = s"
  by (induction s) (auto simp: sublist_Cons_right)

lemma replace_leftmost:
  assumes "\<forall>k < length pre. \<not> prefix (a # old) (drop k (pre @ (a # old) @ post))"
  shows "replace (a # old) new (pre @ (a # old) @ post) = pre @ new @ replace (a # old) new post"
  using assms
proof (induction pre)
  case Nil
  then show ?case by simp
next
  case (Cons p pre)
  from Cons.prems have neg: "\<not> prefix (a # old) (p # (pre @ (a # old) @ post))"
    by (auto dest: spec[of _ 0])
  from Cons.prems
  have "\<forall>k < length pre. \<not> prefix (a # old) (drop k (pre @ (a # old) @ post))"
    by (auto dest: spec[of _ "Suc k" for k])
  with Cons.IH have "replace (a # old) new (pre @ (a # old) @ post) =
      pre @ new @ replace (a # old) new post"
    by blast
  moreover have "replace (a # old) new (p # (pre @ (a # old) @ post)) =
      p # replace (a # old) new (pre @ (a # old) @ post)"
    using neg by (simp only: replace.simps if_False)
  ultimately show ?case
    by simp
qed

lemma replace_present:
  "sublist (a # old) s \<Longrightarrow> sublist new (replace (a # old) new s)"
proof (induction s)
  case Nil
  then show ?case by simp
next
  case (Cons c cs)
  show ?case
  proof (cases "prefix (a # old) (c # cs)")
    case True
    then show ?thesis by (simp del: prefix_Cons)
  next
    case False
    with Cons show ?thesis
      by (auto simp: sublist_Cons_right)
  qed
qed

lemma replace_length:
  "length new = Suc (length old) \<Longrightarrow> length (replace (a # old) new s) = length s"
proof (induction s rule: measure_induct_rule [of length])
  case (less s)
  show ?case
  proof (cases s)
    case Nil
    then show ?thesis by simp
  next
    case (Cons c cs)
    show ?thesis
    proof (cases "prefix (a # old) (c # cs)")
      case True
      then have le: "length old \<le> length cs"
        by (auto simp: prefix_def)
      then have "length (drop (length old) cs) < length s"
        using Cons by simp
      with less have "length (replace (a # old) new (drop (length old) cs)) =
          length (drop (length old) cs)"
        by blast
      with True Cons le less.prems show ?thesis
        by (simp del: Cons_prefix_Cons)
    next
      case False
      with Cons less show ?thesis by (simp del: Cons_prefix_Cons)
    qed
  qed
qed


lemma rewrite_watermark_Inr:
  "rewrite_watermark v = Inr w \<Longrightarrow>
     \<exists>c. v = JStr c \<and> w = JStr (replace ''watermark=1'' ''watermark=0'' c)"
  by (cases v) (auto simp: rewrite_watermark_def)

lemma douyin_download_url_Inr:
  assumes "douyin_download_url play_addr = Inr v" and "truthy v"
  shows "\<exists>url_list. py_getitem play_addr ''url_list'' = Inr url_list \<and>
    py_getitem_0 url_list = Inr v"
  using assms
  by (auto simp: douyin_download_url_def and_then_def split: sum.splits if_splits)

lemma douyin_result_candidate:
  assumes "douyin_result env vid data = Inr r"
  shows "\<exists>item_list item video_info play_addr url_list c.
    py_getitem data ''item_list'' = Inr item_list \<and>
    py_getitem_0 item_list = Inr item \<and>
    py_get item ''video'' (JObj []) = Inr video_info \<and>
    py_get video_info ''play_addr'' (JObj []) = Inr play_addr \<and>
    py_getitem play_addr ''url_list'' = Inr url_list \<and>
    py_getitem_0 url_list = Inr (JStr c) \<and> c \<noteq> [] \<and>
    rewrite_watermark (JStr c) = Inr (download_url r)"
proof -
  from assms obtain item_list item video_info play_addr v w where path:
    "py_getitem data ''item_list'' = Inr item_list"
    "py_getitem_0 item_list = Inr item"
    "py_get item ''video'' (JObj []) = Inr video_info"
    "py_get video_info ''play_addr'' (JObj []) = Inr play_addr"
    "douyin_download_url play_addr = Inr v" "truthy v"
    "rewrite_watermark v = Inr w" "download_url r = w"
    by (auto simp: douyin_result_def and_then_def split: sum.splits if_splits)
  from path(7) obtain c where c: "v = JStr c"
    using rewrite_watermark_Inr by blast
  with path(6) have "c \<noteq> []"
    by simp
  moreover from path(5,6) obtain url_list where
    "py_getitem play_addr ''url_list'' = Inr url_list" "py_getitem_0 url_list = Inr v"
    using douyin_download_url_Inr by blast
  ultimately show ?thesis
    using path c by blast
qed


lemma douyin_body_success:
  assumes "douyin_body env url clock = (Inr r, clock')"
  shows "\<exists>resp clock1 vid api data.
    make_request env url None False clock = (Inr resp, clock1) \<and>
    extract_video_id (real_url resp url) = Some vid \<and>
    make_request env (douyin_api_url vid)
      (Some [(''User-Agent'', USER_AGENT_0), (''Referer'', ''https://www.douyin.com/'')])
      True clock1 = (Inr api, clock') \<and>
    json_loads env (resp_text api) = Inr data \<and>
    douyin_result env vid data = Inr r"
  using assms
  by (auto simp: douyin_body_def split: prod.splits sum.splits option.splits if_splits)

lemma rewrite_watermark_string:
  "\<exists>u. rewrite_watermark (JStr c) = Inr (JStr u) \<and> length u = length c \<and>
     (\<not> sublist ''watermark=1'' c \<longrightarrow> u = c) \<and>
     (sublist ''watermark=1'' c \<longrightarrow> sublist ''watermark=0'' u) \<and>
     (\<forall>pre post. c = pre @ ''watermark=1'' @ post \<and>
        (\<forall>k < length pre. \<not> prefix ''watermark=1'' (drop k c))
        \<longrightarrow> (\<exists>post'. rewrite_watermark (JStr post) = Inr (JStr post') \<and>
              u = pre @ ''watermark=0'' @ post')) \<and>
     (\<forall>pre post. c = pre @ ''watermark=1'' @ post \<and>
        (\<forall>k < length pre. \<not> prefix ''watermark=1'' (drop k c)) \<and>
        \<not> sublist ''watermark=1'' post
        \<longrightarrow> u = pre @ ''watermark=0'' @ post)"
proof -
  let ?u = "replace ''watermark=1'' ''watermark=0'' c"
  have 1: "rewrite_watermark (JStr c) = Inr (JStr ?u)"
    by (simp add: rewrite_watermark_def)
  have 2: "length ?u = length c"
    by (rule replace_length) simp
  have 3: "\<not> sublist ''watermark=1'' c \<longrightarrow> ?u = c"
    by (rule impI) (rule replace_absent)
  have 4: "sublist ''watermark=1'' c \<longrightarrow> sublist ''watermark=0'' ?u"
    by (rule impI) (rule replace_present)
  have 5: "\<forall>pre post. c = pre @ ''watermark=1'' @ post \<and>
        (\<forall>k < length pre. \<not> prefix ''watermark=1'' (drop k c))
        \<longrightarrow> (\<exists>post'. rewrite_watermark (JStr post) = Inr (JStr post') \<and>
              ?u = pre @ ''watermark=0'' @ post')"
  proof (intro allI impI, elim conjE)
    fix pre post
    assume c: "c = pre @ ''watermark=1'' @ post"
      and "\<forall>k < length pre. \<not> prefix ''watermark=1'' (drop k c)"
    then have "\<forall>k < length pre.
        \<not> prefix ''watermark=1'' (drop k (pre @ ''watermark=1'' @ post))"
      by simp
    then have "replace ''watermark=1'' ''watermark=0'' (pre @ ''watermark=1'' @ post) =
        pre @ ''watermark=0'' @ replace ''watermark=1'' ''watermark=0'' post"
      by (rule replace_leftmost)
    with c show "\<exists>post'. rewrite_watermark (JStr post) = Inr (JStr post') \<and>
        ?u = pre @ ''watermark=0'' @ post'"
      by (simp add: rewrite_watermark_def)
  qed
  have 6: "\<forall>pre post. c = pre @ ''watermark=1'' @ post \<and>
        (\<forall>k < length pre. \<not> prefix ''watermark=1'' (drop k c)) \<and>
        \<not> sublist ''watermark=1'' post
        \<longrightarrow> ?u = pre @ ''watermark=0'' @ post"
  proof (intro allI impI, elim conjE)
    fix pre post
    assume c: "c = pre @ ''watermark=1'' @ post"
      and l: "\<forall>k < length pre. \<not> prefix ''watermark=1'' (drop k c)"
      and n: "\<not> sublist ''watermark=1'' post"
    from 5 c l obtain post' where
      p: "rewrite_watermark (JStr post) = Inr (JStr post')" "?u = pre @ ''watermark=0'' @ post'"
      by blast
    from n have "replace ''watermark=1'' ''watermark=0'' post = post"
      by (rule replace_absent)
    with p show "?u = pre @ ''watermark=0'' @ post"
      by (simp add: rewrite_watermark_def)
  qed
  from 1 2 3 4 5 6 show ?thesis
    by blast
qed

lemma all_less_upt: "(\<forall>k < n. P k) = (\<forall>k \<in> set [0..<n]. P k)"
  by auto

text \<open>
  C9. The download URL of a successful \<open>DouyinParser\<close> result is the rewrite (line 190) of the
  candidate, and the candidate is the first entry of the \<open>url_list\<close> of the \<open>play_addr\<close> of the
  \<open>video\<close> of the first item of the decoded API response. The rewrite of a candidate URL
  returns a URL of the same length. A candidate without the enabled flag \<open>watermark=1\<close> is
  returned unchanged. In a candidate that contains it, the leftmost occurrence is replaced by
  the disabled flag \<open>watermark=0\<close>, the text before it is kept, and the text after it is
  rewritten in the same way, so a candidate with one occurrence changes in that place only,
  and the result contains the disabled flag.
\<close>

theorem watermark_rewrite:
  "(parse DouyinParser env url clock = (Inr r, clock')
      \<longrightarrow> (\<exists>resp clock1 vid api data.
            make_request env url None False clock = (Inr resp, clock1) \<and>
            extract_video_id (real_url resp url) = Some vid \<and>
            make_request env (douyin_api_url vid)
              (Some [(''User-Agent'', USER_AGENT_0), (''Referer'', ''https://www.douyin.com/'')])
              True clock1 = (Inr api, clock') \<and>
            json_loads env (resp_text api) = Inr data \<and>
            douyin_result env vid data = Inr r))
   \<and> (douyin_result env vid data = Inr r
      \<longrightarrow> (\<exists>item_list item video_info play_addr url_list c.
            py_getitem data ''item_list'' = Inr item_list \<and>
            py_getitem_0 item_list = Inr item \<and>
            py_get item ''video'' (JObj []) = Inr video_info \<and>
            py_get video_info ''play_addr'' (JObj []) = Inr play_addr \<and>
            py_getitem play_addr ''url_list'' = Inr url_list \<and>
            py_getitem_0 url_list = Inr (JStr c) \<and> c \<noteq> [] \<and>
            rewrite_watermark (JStr c) = Inr (download_url r)))
   \<and> (\<exists>u. rewrite_watermark (JStr c) = Inr (JStr u) \<and> length u = length c \<and>
         (\<not> sublist ''watermark=1'' c \<longrightarrow> u = c) \<and>
         (sublist ''watermark=1'' c \<longrightarrow> sublist ''watermark=0'' u) \<and>
         (\<forall>pre post. c = pre @ ''watermark=1'' @ post \<and>
            (\<forall>k < length pre. \<not> prefix ''watermark=1'' (drop k c))
            \<longrightarrow> (\<exists>post'. rewrite_watermark (JStr post) = Inr (JStr post') \<and>
                  u = pre @ ''watermark=0'' @ post')) \<and>
         (\<forall>pre post. c = pre @ ''watermark=1'' @ post \<and>
            (\<forall>k < length pre. \<not> prefix ''watermark=1'' (drop k c)) \<and>
            \<not> sublist ''watermark=1'' post
            \<longrightarrow> u = pre @ ''watermark=0'' @ post))"
proof (intro conjI impI)
  assume "parse DouyinParser env url clock = (Inr r, clock')"
  then have "douyin_body env url clock = (Inr r, clock')"
    by (auto simp: parse_def split: prod.splits sum.splits)
  then show "\<exists>resp clock1 vid api data.
            make_request env url None False clock = (Inr resp, clock1) \<and>
            extract_video_id (real_url resp url) = Some vid \<and>
            make_request env (douyin_api_url vid)
              (Some [(''User-Agent'', USER_AGENT_0), (''Referer'', ''https://www.douyin.com/'')])
              True clock1 = (Inr api, clock') \<and>
            json_loads env (resp_text api) = Inr data \<and>
            douyin_result env vid data = Inr r"
    by (rule douyin_body_success)
next
  assume "douyin_result env vid data = Inr r"
  then show "\<exists>item_list item video_info play_addr url_list c.
            py_getitem data ''item_list'' = Inr item_list \<and>
            py_getitem_0 item_list = Inr item \<and>
            py_get item ''video'' (JObj []) = Inr video_info \<and>
            py_get video_info ''play_addr'' (JObj []) = Inr play_addr \<and>
            py_getitem play_addr ''url_list'' = Inr url_list \<and>
            py_getitem_0 url_list = Inr (JStr c) \<and> c \<noteq> [] \<and>
            rewrite_watermark (JStr c) = Inr (download_url r)"
    by (rule douyin_result_candidate)
next
  show "\<exists>u. rewrite_watermark (JStr c) = Inr (JStr u) \<and> length u = length c \<and>
         (\<not> sublist ''watermark=1'' c \<longrightarrow> u = c) \<and>
         (sublist ''watermark=1'' c \<longrightarrow> sublist ''watermark=0'' u) \<and>
         (\<forall>pre post. c = pre @ ''watermark=1'' @ post \<and>
            (\<forall>k < length pre. \<not> prefix ''watermark=1'' (drop k c))
            \<longrightarrow> (\<exists>post'. rewrite_watermark (JStr post) = Inr (JStr post') \<and>
                  u = pre @ ''watermark=0'' @ post')) \<and>
         (\<forall>pre post. c = pre @ ''watermark=1'' @ post \<and>
            (\<forall>k < length pre. \<not> prefix ''watermark=1'' (drop k c)) \<and>
            \<not> sublist ''watermark=1'' post
            \<longrightarrow> u = pre @ ''watermark=0'' @ post)"
    by (rule rewrite_watermark_string)
qed

theorem watermark_rewrite_witness:
  "douyin_result mock_env ''7123456789012345678'' api_json = Inr video_record \<and>
   rewrite_watermark
       (JStr ''https://aweme.snssdk.com/aweme/v1/play/?video_id=v0200&watermark=1'') =
     Inr (download_url video_record) \<and>
   download_url video_record =
     JStr ''https://aweme.snssdk.com/aweme/v1/play/?video_id=v0200&watermark=0'' \<and>
   rewrite_watermark (JStr ''https://aweme.snssdk.com/play/?video_id=v0200&watermark=1&line=0'') =
     Inr (JStr ''https://aweme.snssdk.com/play/?video_id=v0200&watermark=0&line=0'') \<and>
   rewrite_watermark (JStr ''https://aweme.snssdk.com/play/?video_id=v0200&line=0'') =
     Inr (JStr ''https://aweme.snssdk.com/play/?video_id=v0200&line=0'')"
proof -
  let ?vid = "''7123456789012345678''"
  let ?cand = "''https://aweme.snssdk.com/aweme/v1/play/?video_id=v0200&watermark=1''"
  let ?pre = "''https://aweme.snssdk.com/play/?video_id=v0200&''"
  let ?post = "''&line=0''"
  let ?c = "?pre @ ''watermark=1'' @ ?post"
  let ?plain = "''https://aweme.snssdk.com/play/?video_id=v0200&line=0''"
  have run: "douyin_result mock_env ?vid api_json = Inr video_record"
    by code_simp
  from run watermark_rewrite [where env = mock_env and vid = ?vid and data = api_json
      and r = video_record, THEN conjunct2, THEN conjunct1]
  have "\<exists>item_list item video_info play_addr url_list c.
            py_getitem api_json ''item_list'' = Inr item_list \<and>
            py_getitem_0 item_list = Inr item \<and>
            py_get item ''video'' (JObj []) = Inr video_info \<and>
            py_get video_info ''play_addr'' (JObj []) = Inr play_addr \<and>
            py_getitem play_addr ''url_list'' = Inr url_list \<and>
            py_getitem_0 url_list = Inr (JStr c) \<and> c \<noteq> [] \<and>
            rewrite_watermark (JStr c) = Inr (download_url video_record)"
    by (rule rev_mp)
  then have tie: "rewrite_watermark (JStr ?cand) = Inr (download_url video_record)"
    by (auto simp: api_json_def)
  have out: "download_url video_record =
      JStr ''https://aweme.snssdk.com/aweme/v1/play/?video_id=v0200&watermark=0''"
    by (simp add: video_record_def)
  have left: "\<forall>k < length ?pre. \<not> prefix ''watermark=1'' (drop k ?c)"
    by (simp only: all_less_upt) code_simp
  have rest: "\<not> sublist ''watermark=1'' ?post"
    by code_simp
  have absent: "\<not> sublist ''watermark=1'' ?plain"
    by code_simp
  from watermark_rewrite [where c = ?c, THEN conjunct2, THEN conjunct2] obtain u where
    u: "rewrite_watermark (JStr ?c) = Inr (JStr u)"
    and one: "\<forall>pre post. ?c = pre @ ''watermark=1'' @ post \<and>
            (\<forall>k < length pre. \<not> prefix ''watermark=1'' (drop k ?c)) \<and>
            \<not> sublist ''watermark=1'' post
            \<longrightarrow> u = pre @ ''watermark=0'' @ post"
    by blast
  from one left rest have "u = ?pre @ ''watermark=0'' @ ?post"
    by blast
  with u have a: "rewrite_watermark (JStr ?c) = Inr (JStr (?pre @ ''watermark=0'' @ ?post))"
    by simp
  from watermark_rewrite [where c = ?plain, THEN conjunct2, THEN conjunct2] obtain v where
    v: "rewrite_watermark (JStr ?plain) = Inr (JStr v)"
    and same: "\<not> sublist ''watermark=1'' ?plain \<longrightarrow> v = ?plain"
    by blast
  from same absent v have b: "rewrite_watermark (JStr ?plain) = Inr (JStr ?plain)"
    by simp
  from run tie out a b show ?thesis
    by simp
qed

section \<open>Properties of the identifier extraction\<close>

lemma re_search_None: "re_search m s = None \<longleftrightarrow> (\<forall>k \<le> length s. m (drop k s) = None)"
proof (induction s)
  case Nil
  then show ?case by simp
next
  case (Cons c cs)
  have "(\<forall>k \<le> length (c # cs). m (drop k (c # cs)) = None) \<longleftrightarrow>
      m (c # cs) = None \<and> (\<forall>k \<le> length cs. m (drop k cs) = None)"
    (is "?L \<longleftrightarrow> ?R")
  proof
    assume l: ?L
    then have "m (drop 0 (c # cs)) = None" by blast
    moreover have "\<forall>k \<le> length cs. m (drop k cs) = None"
    proof (intro allI impI)
      fix k assume "k \<le> length cs"
      with l have "m (drop (Suc k) (c # cs)) = None" by auto
      then show "m (drop k cs) = None" by simp
    qed
    ultimately show ?R by simp
  next
    assume r: ?R
    show ?L
    proof (intro allI impI)
      fix k assume "k \<le> length (c # cs)"
      with r show "m (drop k (c # cs)) = None"
        by (cases k) auto
    qed
  qed
  with Cons show ?case
    by (simp split: option.splits)
qed

lemma re_search_Some:
  "re_search m s = Some g \<longleftrightarrow>
     (\<exists>k \<le> length s. m (drop k s) = Some g \<and> (\<forall>j < k. m (drop j s) = None))"
proof (induction s)
  case Nil
  then show ?case by simp
next
  case (Cons c cs)
  show ?case
  proof (cases "m (c # cs)")
    case (Some h)
    have "(\<exists>k \<le> length (c # cs). m (drop k (c # cs)) = Some g \<and>
        (\<forall>j < k. m (drop j (c # cs)) = None)) \<longleftrightarrow> h = g"
    proof
      assume "\<exists>k \<le> length (c # cs). m (drop k (c # cs)) = Some g \<and>
        (\<forall>j < k. m (drop j (c # cs)) = None)"
      then obtain k where k: "m (drop k (c # cs)) = Some g" "\<forall>j < k. m (drop j (c # cs)) = None"
        by blast
      show "h = g"
      proof (cases k)
        case 0
        with k Some show ?thesis by simp
      next
        case (Suc n)
        with k(2) have "m (drop 0 (c # cs)) = None" by blast
        with Some show ?thesis by simp
      qed
    next
      assume "h = g"
      with Some have "m (drop 0 (c # cs)) = Some g \<and> (\<forall>j < 0. m (drop j (c # cs)) = None)"
        by simp
      then show "\<exists>k \<le> length (c # cs). m (drop k (c # cs)) = Some g \<and>
        (\<forall>j < k. m (drop j (c # cs)) = None)"
        by blast
    qed
    with Some show ?thesis by simp
  next
    case None
    have "(\<exists>k \<le> length (c # cs). m (drop k (c # cs)) = Some g \<and>
        (\<forall>j < k. m (drop j (c # cs)) = None)) \<longleftrightarrow>
      (\<exists>k \<le> length cs. m (drop k cs) = Some g \<and> (\<forall>j < k. m (drop j cs) = None))"
      (is "?L \<longleftrightarrow> ?R")
    proof
      assume ?L
      then obtain k where k: "k \<le> length (c # cs)" "m (drop k (c # cs)) = Some g"
        "\<forall>j < k. m (drop j (c # cs)) = None"
        by blast
      from k(2) None obtain n where n: "k = Suc n"
        by (cases k) auto
      have "\<forall>j < n. m (drop j cs) = None"
      proof (intro allI impI)
        fix j assume "j < n"
        with n k(3) have "m (drop (Suc j) (c # cs)) = None" by auto
        then show "m (drop j cs) = None" by simp
      qed
      with k n show ?R by auto
    next
      assume ?R
      then obtain n where n: "n \<le> length cs" "m (drop n cs) = Some g"
        "\<forall>j < n. m (drop j cs) = None"
        by blast
      have "\<forall>j < Suc n. m (drop j (c # cs)) = None"
      proof (intro allI impI)
        fix j assume "j < Suc n"
        with n(3) None show "m (drop j (c # cs)) = None"
          by (cases j) auto
      qed
      with n have "Suc n \<le> length (c # cs) \<and> m (drop (Suc n) (c # cs)) = Some g \<and>
          (\<forall>j < Suc n. m (drop j (c # cs)) = None)"
        by simp
      then show ?L by blast
    qed
    with None Cons show ?thesis by simp
  qed
qed

lemma takeWhile_stop:
  assumes "post = [] \<or> \<not> P (hd post)"
  shows "takeWhile P post = []" and "dropWhile P post = post"
  using assms by (cases post; simp)+

lemma match_digits_after_Some:
  "match_digits_after lit s = Some g \<longleftrightarrow>
     (\<exists>post. s = lit @ g @ post \<and> g \<noteq> [] \<and> (\<forall>c \<in> set g. is_digit c) \<and>
        (post = [] \<or> \<not> is_digit (hd post)))"
proof
  assume a: "match_digits_after lit s = Some g"
  then have p: "prefix lit s" and g: "g = takeWhile is_digit (drop (length lit) s)" and "g \<noteq> []"
    by (auto simp: match_digits_after_def split: if_splits)
  from p obtain r where r: "s = lit @ r"
    by (auto simp: prefix_def)
  with g have "r = g @ dropWhile is_digit r"
    by simp
  moreover have "dropWhile is_digit r = [] \<or> \<not> is_digit (hd (dropWhile is_digit r))"
    using hd_dropWhile [of is_digit r] by blast
  moreover from g have "\<forall>c \<in> set g. is_digit c"
    by (auto dest: set_takeWhileD)
  ultimately show "\<exists>post. s = lit @ g @ post \<and> g \<noteq> [] \<and> (\<forall>c \<in> set g. is_digit c) \<and>
        (post = [] \<or> \<not> is_digit (hd post))"
    using r \<open>g \<noteq> []\<close> by metis
next
  assume "\<exists>post. s = lit @ g @ post \<and> g \<noteq> [] \<and> (\<forall>c \<in> set g. is_digit c) \<and>
        (post = [] \<or> \<not> is_digit (hd post))"
  then obtain post where "s = lit @ g @ post" "g \<noteq> []" "\<forall>c \<in> set g. is_digit c"
    "post = [] \<or> \<not> is_digit (hd post)"
    by blast
  then show "match_digits_after lit s = Some g"
    by (simp add: match_digits_after_def takeWhile_stop)
qed

lemma match_trailing_digits_Some:
  "match_trailing_digits s = Some g \<longleftrightarrow>
     (\<exists>tail. s = ''/'' @ g @ tail \<and> g \<noteq> [] \<and> (\<forall>c \<in> set g. is_digit c) \<and>
        tail \<in> {[], ''/'', [CHR 0x0A], [CHR ''/'', CHR 0x0A]})"
proof
  assume a: "match_trailing_digits s = Some g"
  then have p: "prefix ''/'' s" and g: "g = takeWhile is_digit (drop 1 s)" and "g \<noteq> []"
    and t: "dropWhile is_digit (drop 1 s) \<in> {[], ''/'', [CHR 0x0A], [CHR ''/'', CHR 0x0A]}"
    by (auto simp: match_trailing_digits_def split: if_splits)
  from p obtain r where r: "s = ''/'' @ r"
    by (auto simp: prefix_def)
  with g have "r = g @ dropWhile is_digit r"
    by simp
  moreover from g have "\<forall>c \<in> set g. is_digit c"
    by (auto dest: set_takeWhileD)
  ultimately show "\<exists>tail. s = ''/'' @ g @ tail \<and> g \<noteq> [] \<and> (\<forall>c \<in> set g. is_digit c) \<and>
        tail \<in> {[], ''/'', [CHR 0x0A], [CHR ''/'', CHR 0x0A]}"
    using r t \<open>g \<noteq> []\<close> by (metis drop0 drop_Suc_Cons One_nat_def append_Cons append_Nil)
next
  assume "\<exists>tail. s = ''/'' @ g @ tail \<and> g \<noteq> [] \<and> (\<forall>c \<in> set g. is_digit c) \<and>
        tail \<in> {[], ''/'', [CHR 0x0A], [CHR ''/'', CHR 0x0A]}"
  then obtain tail where s: "s = ''/'' @ g @ tail" and g: "g \<noteq> []" "\<forall>c \<in> set g. is_digit c"
    and t: "tail \<in> {[], ''/'', [CHR 0x0A], [CHR ''/'', CHR 0x0A]}"
    by blast
  from t have "tail = [] \<or> \<not> is_digit (hd tail)"
    by (auto simp: is_digit_def)
  with g have "takeWhile is_digit (g @ tail) = g" "dropWhile is_digit (g @ tail) = tail"
    by (simp_all add: takeWhile_stop)
  with s g t show "match_trailing_digits s = Some g"
    by (simp add: match_trailing_digits_def)
qed


lemma extract_video_id_unfold:
  "extract_video_id url =
     (case re_search (match_digits_after ''/video/'') url of
        Some g \<Rightarrow> Some g
      | None \<Rightarrow>
          (case re_search (match_digits_after ''item_ids='') url of
             Some g \<Rightarrow> Some g
           | None \<Rightarrow> re_search match_trailing_digits url))"
  by (simp add: extract_video_id_def patterns_def split: option.splits)

lemma extract_video_id_digits:
  assumes "extract_video_id url = Some vid"
  shows "vid \<noteq> [] \<and> (\<forall>c \<in> set vid. is_digit c)"
proof -
  from assms consider
      "re_search (match_digits_after ''/video/'') url = Some vid"
    | "re_search (match_digits_after ''item_ids='') url = Some vid"
    | "re_search match_trailing_digits url = Some vid"
    by (auto simp: extract_video_id_unfold split: option.splits)
  then show ?thesis
  proof cases
    case 1
    then obtain k where "match_digits_after ''/video/'' (drop k url) = Some vid"
      unfolding re_search_Some by blast
    then show ?thesis
      unfolding match_digits_after_Some by blast
  next
    case 2
    then obtain k where "match_digits_after ''item_ids='' (drop k url) = Some vid"
      unfolding re_search_Some by blast
    then show ?thesis
      unfolding match_digits_after_Some by blast
  next
    case 3
    then obtain k where "match_trailing_digits (drop k url) = Some vid"
      unfolding re_search_Some by blast
    then show ?thesis
      unfolding match_trailing_digits_Some by blast
  qed
qed

lemma douyin_no_video_id:
  assumes "make_request env url None False clock = (Inr r, clock1)"
    and "extract_video_id (real_url r url) = None"
  shows "parse DouyinParser env url clock =
    (Inl (ValueError (Parse_failed DouyinParser No_video_id)), clock1)"
  using assms by (simp add: parse_def douyin_body_def)

text \<open>
  C6. \<open>extract_video_id\<close> tries the three patterns in the order \<^verbatim>\<open>/video/(\d+)\<close>,
  \<^verbatim>\<open>item_ids=(\d+)\<close>, \<^verbatim>\<open>/(\d+)/?$\<close> and returns the digits captured by the first one that
  matches somewhere in the URL. A search returns the match at the leftmost position where the
  pattern matches; the first two patterns match a literal followed by a maximal non-empty run
  of digits, the third a slash, such a run, an optional slash and the end of the string (or a
  final line feed). An identifier that is found is a non-empty string of digits. When none of
  the patterns matches the canonical URL, \<open>parse\<close> fails with the error that says the
  identifier cannot be extracted, under the prefix of the parser.
\<close>

theorem extract_video_id_patterns:
  "extract_video_id url =
     (case re_search (match_digits_after ''/video/'') url of
        Some g \<Rightarrow> Some g
      | None \<Rightarrow>
          (case re_search (match_digits_after ''item_ids='') url of
             Some g \<Rightarrow> Some g
           | None \<Rightarrow> re_search match_trailing_digits url))
   \<and> (re_search m url = Some g \<longleftrightarrow>
        (\<exists>k \<le> length url. m (drop k url) = Some g \<and> (\<forall>j < k. m (drop j url) = None)))
   \<and> (re_search m url = None \<longleftrightarrow> (\<forall>k \<le> length url. m (drop k url) = None))
   \<and> (match_digits_after lit s = Some g \<longleftrightarrow>
        (\<exists>post. s = lit @ g @ post \<and> g \<noteq> [] \<and> (\<forall>c \<in> set g. is_digit c) \<and>
           (post = [] \<or> \<not> is_digit (hd post))))
   \<and> (match_trailing_digits s = Some g \<longleftrightarrow>
        (\<exists>tail. s = ''/'' @ g @ tail \<and> g \<noteq> [] \<and> (\<forall>c \<in> set g. is_digit c) \<and>
           tail \<in> {[], ''/'', [CHR 0x0A], [CHR ''/'', CHR 0x0A]}))
   \<and> (extract_video_id url = Some vid \<longrightarrow> vid \<noteq> [] \<and> (\<forall>c \<in> set vid. is_digit c))
   \<and> (make_request env url None False clock = (Inr r, clock1) \<and>
       extract_video_id (real_url r url) = None
      \<longrightarrow> parse DouyinParser env url clock =
            (Inl (ValueError (Parse_failed DouyinParser No_video_id)), clock1))"
proof (intro conjI)
  show "extract_video_id url =
     (case re_search (match_digits_after ''/video/'') url of
        Some g \<Rightarrow> Some g
      | None \<Rightarrow>
          (case re_search (match_digits_after ''item_ids='') url of
             Some g \<Rightarrow> Some g
           | None \<Rightarrow> re_search match_trailing_digits url))"
    by (rule extract_video_id_unfold)
  show "re_search m url = Some g \<longleftrightarrow>
        (\<exists>k \<le> length url. m (drop k url) = Some g \<and> (\<forall>j < k. m (drop j url) = None))"
    by (rule re_search_Some)
  show "re_search m url = None \<longleftrightarrow> (\<forall>k \<le> length url. m (drop k url) = None)"
    by (rule re_search_None)
  show "match_digits_after lit s = Some g \<longleftrightarrow>
        (\<exists>post. s = lit @ g @ post \<and> g \<noteq> [] \<and> (\<forall>c \<in> set g. is_digit c) \<and>
           (post = [] \<or> \<not> is_digit (hd post)))"
    by (rule match_digits_after_Some)
  show "match_trailing_digits s = Some g \<longleftrightarrow>
        (\<exists>tail. s = ''/'' @ g @ tail \<and> g \<noteq> [] \<and> (\<forall>c \<in> set g. is_digit c) \<and>
           tail \<in> {[], ''/'', [CHR 0x0A], [CHR ''/'', CHR 0x0A]})"
    by (rule match_trailing_digits_Some)
  show "extract_video_id url = Some vid \<longrightarrow> vid \<noteq> [] \<and> (\<forall>c \<in> set vid. is_digit c)"
    by (rule impI) (rule extract_video_id_digits)
  show "make_request env url None False clock = (Inr r, clock1) \<and>
       extract_video_id (real_url r url) = None
      \<longrightarrow> parse DouyinParser env url clock =
            (Inl (ValueError (Parse_failed DouyinParser No_video_id)), clock1)"
    by (rule impI, erule conjE) (rule douyin_no_video_id)
qed

theorem extract_video_id_patterns_witness:
  "extract_video_id ''https://www.douyin.com/video/7123456789012345678'' = Some ''7123456789012345678'' \<and>
   extract_video_id ''https://www.iesdouyin.com/share/video/?item_ids=6913&region=CN'' = Some ''6913'' \<and>
   extract_video_id ''https://www.douyin.com/note/7045/'' = Some ''7045'' \<and>
   extract_video_id ''https://v.douyin.com/iRNBho6u/'' = None \<and>
   parse DouyinParser (fixed_env ok_200) ''https://v.douyin.com/iRNBho6u/'' 0 =
     (Inl (ValueError (Parse_failed DouyinParser No_video_id)), 1)"
proof -
  have a: "(case re_search (match_digits_after ''/video/'')
                 ''https://www.douyin.com/video/7123456789012345678'' of
        Some g \<Rightarrow> Some g
      | None \<Rightarrow>
          (case re_search (match_digits_after ''item_ids='')
                  ''https://www.douyin.com/video/7123456789012345678'' of
             Some g \<Rightarrow> Some g
           | None \<Rightarrow> re_search match_trailing_digits
                  ''https://www.douyin.com/video/7123456789012345678'')) = Some ''7123456789012345678''"
    by code_simp
  have b: "(case re_search (match_digits_after ''/video/'')
                 ''https://www.iesdouyin.com/share/video/?item_ids=6913&region=CN'' of
        Some g \<Rightarrow> Some g
      | None \<Rightarrow>
          (case re_search (match_digits_after ''item_ids='')
                  ''https://www.iesdouyin.com/share/video/?item_ids=6913&region=CN'' of
             Some g \<Rightarrow> Some g
           | None \<Rightarrow> re_search match_trailing_digits
                  ''https://www.iesdouyin.com/share/video/?item_ids=6913&region=CN'')) = Some ''6913''"
    by code_simp
  have c: "(case re_search (match_digits_after ''/video/'') ''https://www.douyin.com/note/7045/'' of
        Some g \<Rightarrow> Some g
      | None \<Rightarrow>
          (case re_search (match_digits_after ''item_ids='') ''https://www.douyin.com/note/7045/'' of
             Some g \<Rightarrow> Some g
           | None \<Rightarrow> re_search match_trailing_digits ''https://www.douyin.com/note/7045/'')) =
      Some ''7045''"
    by code_simp
  have d: "(case re_search (match_digits_after ''/video/'') ''https://v.douyin.com/iRNBho6u/'' of
        Some g \<Rightarrow> Some g
      | None \<Rightarrow>
          (case re_search (match_digits_after ''item_ids='') ''https://v.douyin.com/iRNBho6u/'' of
             Some g \<Rightarrow> Some g
           | None \<Rightarrow> re_search match_trailing_digits ''https://v.douyin.com/iRNBho6u/'')) = None"
    by code_simp
  have req: "make_request (fixed_env ok_200) ''https://v.douyin.com/iRNBho6u/'' None False 0 =
      (Inr ok_200, 1)"
    by (simp add: make_request_def MAX_RETRIES_def upt_three attempt_get_def raise_for_status_def
        fixed_env_def ok_200_def)
  have url: "real_url ok_200 ''https://v.douyin.com/iRNBho6u/'' = ''https://v.douyin.com/iRNBho6u/''"
    by (simp add: real_url_def ok_200_def)
  from a extract_video_id_patterns [of "''https://www.douyin.com/video/7123456789012345678''", THEN conjunct1]
  have a': "extract_video_id ''https://www.douyin.com/video/7123456789012345678'' =
      Some ''7123456789012345678''"
    by simp
  from b extract_video_id_patterns
    [of "''https://www.iesdouyin.com/share/video/?item_ids=6913&region=CN''", THEN conjunct1]
  have b': "extract_video_id ''https://www.iesdouyin.com/share/video/?item_ids=6913&region=CN'' =
      Some ''6913''"
    by simp
  from c extract_video_id_patterns [of "''https://www.douyin.com/note/7045/''", THEN conjunct1]
  have c': "extract_video_id ''https://www.douyin.com/note/7045/'' = Some ''7045''"
    by simp
  from d extract_video_id_patterns [of "''https://v.douyin.com/iRNBho6u/''", THEN conjunct1]
  have d': "extract_video_id ''https://v.douyin.com/iRNBho6u/'' = None"
    by simp
  from req url d' extract_video_id_patterns
    [of "''https://v.douyin.com/iRNBho6u/''" _ _ _ _ _ "fixed_env ok_200" 0 ok_200 1,
      THEN conjunct2, THEN conjunct2, THEN conjunct2, THEN conjunct2, THEN conjunct2, THEN conjunct2]
  have e: "parse DouyinParser (fixed_env ok_200) ''https://v.douyin.com/iRNBho6u/'' 0 =
     (Inl (ValueError (Parse_failed DouyinParser No_video_id)), 1)"
    by simp
  from a' b' c' d' e show ?thesis
    by simp
qed

section \<open>Properties of the handler\<close>

lemma platforms_loop_mem: "platforms_loop reg u = Some p \<Longrightarrow> p \<in> fst ` set reg"
  by (induction reg u rule: platforms_loop.induct) (auto split: if_splits)

lemma get_platform_from_url_names:
  assumes "get_platform_from_url u = Some plat"
  shows "plat \<in> {''douyin'', ''kuaishou'', ''xiaohongshu'', ''bilibili'', ''weishi''}"
  using platforms_loop_mem [OF assms [unfolded get_platform_from_url_def]]
  by (simp add: SUPPORTED_PLATFORMS_def)

lemma get_parser_None:
  assumes "get_platform_from_url u = Some plat" and "get_parser plat = None"
  shows "plat = ''bilibili'' \<or> plat = ''weishi''"
  using get_platform_from_url_names [OF assms(1)] assms(2)
  by (auto simp: get_parser_def)

lemma parse_outcome:
  "parse p env url clock =
     (case parser_body p env url clock of
        (Inl e, clock') \<Rightarrow> (Inl (ValueError (Parse_failed p (str_exn e))), clock')
      | (Inr result, clock') \<Rightarrow> (Inr result, clock'))"
  by (simp add: parse_def)

lemma parse_failure_is_ValueError:
  assumes "parse p env url clock = (Inl e, clock')"
  shows "\<exists>m. e = ValueError (Parse_failed p m)"
  using assms by (auto simp: parse_def split: prod.splits sum.splits)

lemma handler_post:
  assumes "map_of event ''httpMethod'' = Some (JStr ''POST'')"
    and "request_data env event = Inr data"
  shows "handler env event clock =
     (case dispatch env data clock of
        (Inr resp, clock') \<Rightarrow> (resp, clock')
      | (Inl e, clock') \<Rightarrow> (respond 500 (Body_failure Internal_error), clock'))"
  using assms by (simp add: handler_def handler_body_def)

lemma dispatch_url:
  assumes "map_of kvs ''url'' = Some (JStr u)" and "strip u \<noteq> []"
  shows "dispatch env (JObj kvs) clock =
     (case get_platform_from_url (strip u) of
        None \<Rightarrow> (Inr (respond 400 (Body_failure Unsupported_platform)), clock)
      | Some plat \<Rightarrow>
          (case get_parser plat of
             None \<Rightarrow> (Inr (respond 500 (Body_failure (Not_implemented plat))), clock)
           | Some p \<Rightarrow>
               (case parse p env (strip u) clock of
                  (Inr result, clock') \<Rightarrow> (Inr (respond 200 (Body_result result)), clock')
                | (Inl e, clock') \<Rightarrow>
                    if is_ValueError e
                    then (Inr (respond 400 (Body_failure (str_exn e))), clock')
                    else (Inl e, clock'))))"
proof (cases "get_platform_from_url (strip u)")
  case None
  with assms show ?thesis
    by (simp add: dispatch_def and_then_def)
next
  case (Some plat)
  from get_platform_from_url_names [OF Some] have "plat \<noteq> []"
    by auto
  with Some assms show ?thesis
    by (simp add: dispatch_def and_then_def)
qed

lemma dispatch_no_url:
  assumes "map_of kvs ''url'' = None \<or> (\<exists>u. map_of kvs ''url'' = Some (JStr u) \<and> strip u = [])"
  shows "dispatch env (JObj kvs) clock = (Inr (respond 400 (Body_failure Url_required)), clock)"
  using assms by (auto simp: dispatch_def and_then_def strip_def)

lemma dispatch_url_not_string:
  assumes "map_of kvs ''url'' = Some v" and "\<forall>s. v \<noteq> JStr s"
  shows "dispatch env (JObj kvs) clock = (Inl AttributeError, clock)"
  using assms by (cases v) (simp_all add: dispatch_def and_then_def)

lemma dispatch_not_object:
  assumes "\<forall>kvs. data \<noteq> JObj kvs"
  shows "dispatch env data clock = (Inl AttributeError, clock)"
  using assms by (cases data) (simp_all add: dispatch_def and_then_def)

lemma dispatch_status:
  assumes "dispatch env data clock = (Inr resp, clock')"
  shows "statusCode resp \<in> {200, 400, 500} \<and> response_headers resp = CORS_HEADERS"
  using assms
  by (auto simp: dispatch_def respond_def split: sum.splits if_splits option.splits prod.splits)

lemma handler_status:
  "statusCode (fst (handler env event clock)) \<in> {200, 400, 405, 500} \<and>
   response_headers (fst (handler env event clock)) = CORS_HEADERS"
proof (cases "handler_body env event clock")
  case (Pair res clock')
  show ?thesis
  proof (cases res)
    case (Inl e)
    with Pair show ?thesis by (simp add: handler_def respond_def)
  next
    case (Inr resp)
    with Pair have "statusCode resp \<in> {200, 400, 405, 500} \<and> response_headers resp = CORS_HEADERS"
      using dispatch_status [of env _ clock resp clock']
      by (auto simp: handler_body_def respond_def split: if_splits sum.splits)
    with Pair Inr show ?thesis by (simp add: handler_def)
  qed
qed

text \<open>
  C1, as the claim states it: a body of a thousand opening brackets cannot be decoded, but the
  decoder raises \<open>RecursionError\<close> on it, which the \<^verbatim>\<open>except json.JSONDecodeError\<close> of line 416
  does not catch. The outer handler answers 500 with the fixed text, not 400.
\<close>

theorem handler_undecodable_counterexample:
  "json_loads mock_env (replicate 1000 (CHR ''['')) = Inl RecursionError \<and>
   handler mock_env
       [(''httpMethod'', JStr ''POST''), (''body'', JStr (replicate 1000 (CHR ''['')))] 0 =
     (respond 500 (Body_failure Internal_error), 0)"
  by (simp add: handler_def handler_body_def request_data_def mock_env_def mock_loads_def
      deep_body_def)

text \<open>
  C1, amended. The rows of the response table, each under the condition that reaches it. An
  \<open>OPTIONS\<close> request is answered 200; any other method but \<open>POST\<close> 405; a \<open>POST\<close> whose body is a
  string on which the decoder raises \<open>JSONDecodeError\<close> 400, and one on which it raises any
  other exception 500 with the fixed text; request data that is not an object 500 with the
  fixed text; request data without a \<open>url\<close>, or with one that is empty once stripped, 400; a
  \<open>url\<close> that is not a string 500 with the fixed text; a URL of no registered platform 400; a
  URL of a platform without a parser (these are \<open>bilibili\<close> and \<open>weishi\<close>) 500, with a message
  that contains the platform id; a failure of the parser, which is always a \<open>ValueError\<close>, 400
  with its message; a success 200 with the result of the parser. The rows cover every event,
  every response has one of the four status codes of the table and carries the cross-origin
  headers.
\<close>

theorem handler_table:
  "(map_of event ''httpMethod'' = Some (JStr ''OPTIONS'')
      \<longrightarrow> handler env event clock = (respond 200 (Body_message CORS_preflight), clock))
   \<and> (map_of event ''httpMethod'' \<noteq> Some (JStr ''OPTIONS'') \<and>
       map_of event ''httpMethod'' \<noteq> Some (JStr ''POST'')
      \<longrightarrow> handler env event clock = (respond 405 (Body_failure Only_POST), clock))
   \<and> (map_of event ''httpMethod'' = Some (JStr ''POST'') \<and>
       map_of event ''body'' = Some (JStr b) \<and> json_loads env b = Inl e \<and> is_JSONDecodeError e
      \<longrightarrow> handler env event clock = (respond 400 (Body_failure Bad_request_data), clock))
   \<and> (map_of event ''httpMethod'' = Some (JStr ''POST'') \<and>
       map_of event ''body'' = Some (JStr b) \<and> json_loads env b = Inl e \<and>
       \<not> is_JSONDecodeError e
      \<longrightarrow> handler env event clock = (respond 500 (Body_failure Internal_error), clock))
   \<and> (map_of event ''httpMethod'' = Some (JStr ''POST'') \<and>
       request_data env event = Inr data \<and> (\<forall>kvs. data \<noteq> JObj kvs)
      \<longrightarrow> handler env event clock = (respond 500 (Body_failure Internal_error), clock))
   \<and> (map_of event ''httpMethod'' = Some (JStr ''POST'') \<and>
       request_data env event = Inr (JObj kvs) \<and>
       (map_of kvs ''url'' = None \<or> (\<exists>u. map_of kvs ''url'' = Some (JStr u) \<and> strip u = []))
      \<longrightarrow> handler env event clock = (respond 400 (Body_failure Url_required), clock))
   \<and> (map_of event ''httpMethod'' = Some (JStr ''POST'') \<and>
       request_data env event = Inr (JObj kvs) \<and>
       map_of kvs ''url'' = Some v \<and> (\<forall>s. v \<noteq> JStr s)
      \<longrightarrow> handler env event clock = (respond 500 (Body_failure Internal_error), clock))
   \<and> (map_of event ''httpMethod'' = Some (JStr ''POST'') \<and>
       request_data env event = Inr (JObj kvs) \<and>
       map_of kvs ''url'' = Some (JStr u) \<and> strip u \<noteq> [] \<and>
       get_platform_from_url (strip u) = None
      \<longrightarrow> handler env event clock = (respond 400 (Body_failure Unsupported_platform), clock))
   \<and> (map_of event ''httpMethod'' = Some (JStr ''POST'') \<and>
       request_data env event = Inr (JObj kvs) \<and>
       map_of kvs ''url'' = Some (JStr u) \<and> strip u \<noteq> [] \<and>
       get_platform_from_url (strip u) = Some plat \<and> get_parser plat = None
      \<longrightarrow> handler env event clock = (respond 500 (Body_failure (Not_implemented plat)), clock)
          \<and> (plat = ''bilibili'' \<or> plat = ''weishi''))
   \<and> get_parser ''bilibili'' = None
   \<and> get_parser ''weishi'' = None
   \<and> (map_of event ''httpMethod'' = Some (JStr ''POST'') \<and>
       request_data env event = Inr (JObj kvs) \<and>
       map_of kvs ''url'' = Some (JStr u) \<and> strip u \<noteq> [] \<and>
       get_platform_from_url (strip u) = Some plat \<and> get_parser plat = Some p \<and>
       parse p env (strip u) clock = (Inl x, clock')
      \<longrightarrow> (\<exists>m. x = ValueError m \<and>
            handler env event clock = (respond 400 (Body_failure m), clock')))
   \<and> (map_of event ''httpMethod'' = Some (JStr ''POST'') \<and>
       request_data env event = Inr (JObj kvs) \<and>
       map_of kvs ''url'' = Some (JStr u) \<and> strip u \<noteq> [] \<and>
       get_platform_from_url (strip u) = Some plat \<and> get_parser plat = Some p \<and>
       parse p env (strip u) clock = (Inr result, clock')
      \<longrightarrow> handler env event clock = (respond 200 (Body_result result), clock'))
   \<and> statusCode (fst (handler env event clock)) \<in> {200, 400, 405, 500}
   \<and> response_headers (fst (handler env event clock)) = CORS_HEADERS"
proof (intro conjI impI)
  assume "map_of event ''httpMethod'' = Some (JStr ''OPTIONS'')"
  then show "handler env event clock = (respond 200 (Body_message CORS_preflight), clock)"
    by (simp add: handler_def handler_body_def)
next
  assume "map_of event ''httpMethod'' \<noteq> Some (JStr ''OPTIONS'') \<and>
       map_of event ''httpMethod'' \<noteq> Some (JStr ''POST'')"
  then show "handler env event clock = (respond 405 (Body_failure Only_POST), clock)"
    by (simp add: handler_def handler_body_def)
next
  assume "map_of event ''httpMethod'' = Some (JStr ''POST'') \<and>
       map_of event ''body'' = Some (JStr b) \<and> json_loads env b = Inl e \<and> is_JSONDecodeError e"
  then show "handler env event clock = (respond 400 (Body_failure Bad_request_data), clock)"
    by (simp add: handler_def handler_body_def request_data_def)
next
  assume "map_of event ''httpMethod'' = Some (JStr ''POST'') \<and>
       map_of event ''body'' = Some (JStr b) \<and> json_loads env b = Inl e \<and>
       \<not> is_JSONDecodeError e"
  then show "handler env event clock = (respond 500 (Body_failure Internal_error), clock)"
    by (simp add: handler_def handler_body_def request_data_def)
next
  assume "map_of event ''httpMethod'' = Some (JStr ''POST'') \<and>
       request_data env event = Inr data \<and> (\<forall>kvs. data \<noteq> JObj kvs)"
  then show "handler env event clock = (respond 500 (Body_failure Internal_error), clock)"
    by (simp add: handler_post dispatch_not_object)
next
  assume "map_of event ''httpMethod'' = Some (JStr ''POST'') \<and>
       request_data env event = Inr (JObj kvs) \<and>
       (map_of kvs ''url'' = None \<or> (\<exists>u. map_of kvs ''url'' = Some (JStr u) \<and> strip u = []))"
  then show "handler env event clock = (respond 400 (Body_failure Url_required), clock)"
    by (simp add: handler_post dispatch_no_url)
next
  assume "map_of event ''httpMethod'' = Some (JStr ''POST'') \<and>
       request_data env event = Inr (JObj kvs) \<and>
       map_of kvs ''url'' = Some v \<and> (\<forall>s. v \<noteq> JStr s)"
  then show "handler env event clock = (respond 500 (Body_failure Internal_error), clock)"
    by (simp add: handler_post dispatch_url_not_string)
next
  assume "map_of event ''httpMethod'' = Some (JStr ''POST'') \<and>
       request_data env event = Inr (JObj kvs) \<and>
       map_of kvs ''url'' = Some (JStr u) \<and> strip u \<noteq> [] \<and>
       get_platform_from_url (strip u) = None"
  then show "handler env event clock = (respond 400 (Body_failure Unsupported_platform), clock)"
    by (simp add: handler_post dispatch_url)
next
  assume a: "map_of event ''httpMethod'' = Some (JStr ''POST'') \<and>
       request_data env event = Inr (JObj kvs) \<and>
       map_of kvs ''url'' = Some (JStr u) \<and> strip u \<noteq> [] \<and>
       get_platform_from_url (strip u) = Some plat \<and> get_parser plat = None"
  then show "handler env event clock = (respond 500 (Body_failure (Not_implemented plat)), clock)"
    by (simp add: handler_post dispatch_url)
  from a show "plat = ''bilibili'' \<or> plat = ''weishi''"
    using get_parser_None [of "strip u" plat] by blast
next
  show "get_parser ''bilibili'' = None" "get_parser ''weishi'' = None"
    by (simp_all add: get_parser_def)
next
  assume a: "map_of event ''httpMethod'' = Some (JStr ''POST'') \<and>
       request_data env event = Inr (JObj kvs) \<and>
       map_of kvs ''url'' = Some (JStr u) \<and> strip u \<noteq> [] \<and>
       get_platform_from_url (strip u) = Some plat \<and> get_parser plat = Some p \<and>
       parse p env (strip u) clock = (Inl x, clock')"
  then obtain m where "x = ValueError (Parse_failed p m)"
    using parse_failure_is_ValueError by blast
  with a show "\<exists>m. x = ValueError m \<and>
            handler env event clock = (respond 400 (Body_failure m), clock')"
    by (simp add: handler_post dispatch_url)
next
  assume "map_of event ''httpMethod'' = Some (JStr ''POST'') \<and>
       request_data env event = Inr (JObj kvs) \<and>
       map_of kvs ''url'' = Some (JStr u) \<and> strip u \<noteq> [] \<and>
       get_platform_from_url (strip u) = Some plat \<and> get_parser plat = Some p \<and>
       parse p env (strip u) clock = (Inr result, clock')"
  then show "handler env event clock = (respond 200 (Body_result result), clock')"
    by (simp add: handler_post dispatch_url)
next
  show "statusCode (fst (handler env event clock)) \<in> {200, 400, 405, 500}"
    "response_headers (fst (handler env event clock)) = CORS_HEADERS"
    using handler_status [of env event clock] by blast+
qed

theorem handler_table_witness:
  "handler mock_env [(''httpMethod'', JStr ''OPTIONS'')] 0 =
     (respond 200 (Body_message CORS_preflight), 0) \<and>
   handler mock_env [(''httpMethod'', JStr ''GET'')] 0 =
     (respond 405 (Body_failure Only_POST), 0) \<and>
   handler mock_env (post_event (JStr ''not json'')) 0 =
     (respond 400 (Body_failure Bad_request_data), 0) \<and>
   handler mock_env (post_event (JStr deep_body)) 0 =
     (respond 500 (Body_failure Internal_error), 0) \<and>
   handler mock_env (post_event JNull) 0 =
     (respond 500 (Body_failure Internal_error), 0) \<and>
   handler mock_env (post_event (JObj [(''url'', JStr '' '')])) 0 =
     (respond 400 (Body_failure Url_required), 0) \<and>
   handler mock_env (post_event (JStr body_number)) 0 =
     (respond 500 (Body_failure Internal_error), 0) \<and>
   handler mock_env (post_event (JObj [(''url'', JStr ''https://example.com/video/1'')])) 0 =
     (respond 400 (Body_failure Unsupported_platform), 0) \<and>
   handler mock_env (post_event (JObj [(''url'', JStr ''https://www.bilibili.com/video/BV1xx'')])) 0 =
     (respond 500 (Body_failure (Not_implemented ''bilibili'')), 0) \<and>
   handler mock_env (post_event (JObj [(''url'', JStr ''https://v.douyin.com/iRNBho6u/'')])) 0 =
     (respond 400 (Body_failure (Parse_failed DouyinParser (Text ''connection refused''))), 3) \<and>
   handler mock_env (post_event (JStr body_video)) 0 =
     (respond 200 (Body_result video_record), 2)"
proof -
  let ?u8 = "''https://example.com/video/1''"
  let ?u9 = "''https://www.bilibili.com/video/BV1xx''"
  let ?u12 = "''https://v.douyin.com/iRNBho6u/''"
  let ?u13 = "''https://www.douyin.com/video/7123456789012345678''"
  have h1: "map_of [(''httpMethod'', JStr ''OPTIONS'')] ''httpMethod'' = Some (JStr ''OPTIONS'')"
    by simp
  have h2: "map_of [(''httpMethod'', JStr ''GET'')] ''httpMethod'' \<noteq> Some (JStr ''OPTIONS'') \<and>
      map_of [(''httpMethod'', JStr ''GET'')] ''httpMethod'' \<noteq> Some (JStr ''POST'')"
    by simp
  have h3: "map_of (post_event (JStr ''not json'')) ''httpMethod'' = Some (JStr ''POST'') \<and>
      map_of (post_event (JStr ''not json'')) ''body'' = Some (JStr ''not json'') \<and>
      json_loads mock_env ''not json'' = Inl JSONDecodeError \<and> is_JSONDecodeError JSONDecodeError"
    by code_simp
  have h4: "map_of (post_event (JStr deep_body)) ''httpMethod'' = Some (JStr ''POST'') \<and>
      map_of (post_event (JStr deep_body)) ''body'' = Some (JStr deep_body) \<and>
      json_loads mock_env deep_body = Inl RecursionError \<and> \<not> is_JSONDecodeError RecursionError"
    by (simp add: post_event_def mock_env_def mock_loads_def)
  have h5: "map_of (post_event JNull) ''httpMethod'' = Some (JStr ''POST'') \<and>
      request_data mock_env (post_event JNull) = Inr JNull \<and> (\<forall>kvs. JNull \<noteq> JObj kvs)"
    by (simp add: post_event_def request_data_def)
  have h6: "map_of (post_event (JObj [(''url'', JStr '' '')])) ''httpMethod'' = Some (JStr ''POST'') \<and>
      request_data mock_env (post_event (JObj [(''url'', JStr '' '')])) = Inr (JObj [(''url'', JStr '' '')]) \<and>
      (map_of [(''url'', JStr '' '')] ''url'' = None \<or>
       (\<exists>u. map_of [(''url'', JStr '' '')] ''url'' = Some (JStr u) \<and> strip u = []))"
    by (simp add: post_event_def request_data_def strip_def is_space_def)
  have g7: "map_of (post_event (JStr body_number)) ''httpMethod'' = Some (JStr ''POST'') \<and>
      request_data mock_env (post_event (JStr body_number)) = Inr (JObj [(''url'', JInt 5)]) \<and>
      map_of [(''url'', JInt 5)] ''url'' = Some (JInt 5)"
    by code_simp
  have h7: "map_of (post_event (JStr body_number)) ''httpMethod'' = Some (JStr ''POST'') \<and>
      request_data mock_env (post_event (JStr body_number)) = Inr (JObj [(''url'', JInt 5)]) \<and>
      map_of [(''url'', JInt 5)] ''url'' = Some (JInt 5) \<and> (\<forall>s. JInt 5 \<noteq> JStr s)"
    using g7 by simp
  have h8: "map_of (post_event (JObj [(''url'', JStr ?u8)])) ''httpMethod'' = Some (JStr ''POST'') \<and>
      request_data mock_env (post_event (JObj [(''url'', JStr ?u8)])) = Inr (JObj [(''url'', JStr ?u8)]) \<and>
      map_of [(''url'', JStr ?u8)] ''url'' = Some (JStr ?u8) \<and> strip ?u8 \<noteq> [] \<and>
      get_platform_from_url (strip ?u8) = None"
    by code_simp
  have h9: "map_of (post_event (JObj [(''url'', JStr ?u9)])) ''httpMethod'' = Some (JStr ''POST'') \<and>
      request_data mock_env (post_event (JObj [(''url'', JStr ?u9)])) = Inr (JObj [(''url'', JStr ?u9)]) \<and>
      map_of [(''url'', JStr ?u9)] ''url'' = Some (JStr ?u9) \<and> strip ?u9 \<noteq> [] \<and>
      get_platform_from_url (strip ?u9) = Some ''bilibili'' \<and> get_parser ''bilibili'' = None"
    by code_simp
  have h12: "map_of (post_event (JObj [(''url'', JStr ?u12)])) ''httpMethod'' = Some (JStr ''POST'') \<and>
      request_data mock_env (post_event (JObj [(''url'', JStr ?u12)])) = Inr (JObj [(''url'', JStr ?u12)]) \<and>
      map_of [(''url'', JStr ?u12)] ''url'' = Some (JStr ?u12) \<and> strip ?u12 \<noteq> [] \<and>
      get_platform_from_url (strip ?u12) = Some ''douyin'' \<and>
      get_parser ''douyin'' = Some DouyinParser \<and>
      parse DouyinParser mock_env (strip ?u12) 0 =
        (Inl (ValueError (Parse_failed DouyinParser (Text ''connection refused''))), 3)"
    by code_simp
  have h13: "map_of (post_event (JStr body_video)) ''httpMethod'' = Some (JStr ''POST'') \<and>
      request_data mock_env (post_event (JStr body_video)) = Inr (JObj [(''url'', JStr ?u13)]) \<and>
      map_of [(''url'', JStr ?u13)] ''url'' = Some (JStr ?u13) \<and> strip ?u13 \<noteq> [] \<and>
      get_platform_from_url (strip ?u13) = Some ''douyin'' \<and>
      get_parser ''douyin'' = Some DouyinParser \<and>
      parse DouyinParser mock_env (strip ?u13) 0 = (Inr video_record, 2)"
    by code_simp
  from h1 handler_table [where event = "[(''httpMethod'', JStr ''OPTIONS'')]" and env = mock_env
      and clock = 0,
      THEN conjunct1]
  have c1: "handler mock_env [(''httpMethod'', JStr ''OPTIONS'')] 0 =
      (respond 200 (Body_message CORS_preflight), 0)"
    by (rule rev_mp)
  from h2 handler_table [where event = "[(''httpMethod'', JStr ''GET'')]" and env = mock_env
      and clock = 0,
      THEN conjunct2, THEN conjunct1]
  have c2: "handler mock_env [(''httpMethod'', JStr ''GET'')] 0 =
      (respond 405 (Body_failure Only_POST), 0)"
    by (rule rev_mp)
  from h3 handler_table [where event = "post_event (JStr ''not json'')" and env = mock_env
      and clock = 0 and b = "''not json''" and e = JSONDecodeError,
      THEN conjunct2, THEN conjunct2, THEN conjunct1]
  have c3: "handler mock_env (post_event (JStr ''not json'')) 0 =
      (respond 400 (Body_failure Bad_request_data), 0)"
    by (rule rev_mp)
  from h4 handler_table [where event = "post_event (JStr deep_body)" and env = mock_env
      and clock = 0 and b = deep_body and e = RecursionError,
      THEN conjunct2, THEN conjunct2, THEN conjunct2, THEN conjunct1]
  have c4: "handler mock_env (post_event (JStr deep_body)) 0 =
      (respond 500 (Body_failure Internal_error), 0)"
    by (rule rev_mp)
  from h5 handler_table [where event = "post_event JNull" and env = mock_env
      and clock = 0 and data = JNull,
      THEN conjunct2, THEN conjunct2, THEN conjunct2, THEN conjunct2, THEN conjunct1]
  have c5: "handler mock_env (post_event JNull) 0 =
      (respond 500 (Body_failure Internal_error), 0)"
    by (rule rev_mp)
  from h6 handler_table [where event = "post_event (JObj [(''url'', JStr '' '')])" and env = mock_env
      and clock = 0 and kvs = "[(''url'', JStr '' '')]",
      THEN conjunct2, THEN conjunct2, THEN conjunct2, THEN conjunct2, THEN conjunct2,
      THEN conjunct1]
  have c6: "handler mock_env (post_event (JObj [(''url'', JStr '' '')])) 0 =
      (respond 400 (Body_failure Url_required), 0)"
    by (rule rev_mp)
  from h7 handler_table [where event = "post_event (JStr body_number)" and env = mock_env
      and clock = 0 and kvs = "[(''url'', JInt 5)]" and v = "JInt 5",
      THEN conjunct2, THEN conjunct2, THEN conjunct2, THEN conjunct2, THEN conjunct2,
      THEN conjunct2, THEN conjunct1]
  have c7: "handler mock_env (post_event (JStr body_number)) 0 =
      (respond 500 (Body_failure Internal_error), 0)"
    by (rule rev_mp)
  from h8 handler_table [where event = "post_event (JObj [(''url'', JStr ?u8)])" and env = mock_env
      and clock = 0 and kvs = "[(''url'', JStr ?u8)]" and u = ?u8,
      THEN conjunct2, THEN conjunct2, THEN conjunct2, THEN conjunct2, THEN conjunct2,
      THEN conjunct2, THEN conjunct2, THEN conjunct1]
  have c8: "handler mock_env (post_event (JObj [(''url'', JStr ?u8)])) 0 =
      (respond 400 (Body_failure Unsupported_platform), 0)"
    by (rule rev_mp)
  from h9 handler_table [where event = "post_event (JObj [(''url'', JStr ?u9)])" and env = mock_env
      and clock = 0 and kvs = "[(''url'', JStr ?u9)]" and u = ?u9 and plat = "''bilibili''",
      THEN conjunct2, THEN conjunct2, THEN conjunct2, THEN conjunct2, THEN conjunct2,
      THEN conjunct2, THEN conjunct2, THEN conjunct2, THEN conjunct1]
  have c9: "handler mock_env (post_event (JObj [(''url'', JStr ?u9)])) 0 =
      (respond 500 (Body_failure (Not_implemented ''bilibili'')), 0)"
    by blast
  from h12 handler_table [where event = "post_event (JObj [(''url'', JStr ?u12)])" and env = mock_env
      and clock = 0 and kvs = "[(''url'', JStr ?u12)]" and u = ?u12 and plat = "''douyin''"
      and p = DouyinParser and clock' = 3
      and x = "ValueError (Parse_failed DouyinParser (Text ''connection refused''))",
      THEN conjunct2, THEN conjunct2, THEN conjunct2, THEN conjunct2, THEN conjunct2,
      THEN conjunct2, THEN conjunct2, THEN conjunct2, THEN conjunct2, THEN conjunct2,
      THEN conjunct2, THEN conjunct1]
  have c12: "handler mock_env (post_event (JObj [(''url'', JStr ?u12)])) 0 =
      (respond 400 (Body_failure (Parse_failed DouyinParser (Text ''connection refused''))), 3)"
    by blast
  from h13 handler_table [where event = "post_event (JStr body_video)" and env = mock_env
      and clock = 0 and kvs = "[(''url'', JStr ?u13)]" and u = ?u13 and plat = "''douyin''"
      and p = DouyinParser and clock' = 2 and result = video_record,
      THEN conjunct2, THEN conjunct2, THEN conjunct2, THEN conjunct2, THEN conjunct2,
      THEN conjunct2, THEN conjunct2, THEN conjunct2, THEN conjunct2, THEN conjunct2,
      THEN conjunct2, THEN conjunct2, THEN conjunct1]
  have c13: "handler mock_env (post_event (JStr body_video)) 0 =
      (respond 200 (Body_result video_record), 2)"
    by (rule rev_mp)
  from c1 c2 c3 c4 c5 c6 c7 c8 c9 c12 c13 show ?thesis
    by (intro conjI)
qed

section \<open>Properties of the parsers\<close>

lemma handler_parser_fault:
  assumes "map_of event ''httpMethod'' = Some (JStr ''POST'')"
    and "request_data env event = Inr (JObj kvs)"
    and "map_of kvs ''url'' = Some (JStr u)" and "strip u \<noteq> []"
    and "get_platform_from_url (strip u) = Some plat" and "get_parser plat = Some p"
    and "parser_body p env (strip u) clock = (Inl e, clock')"
  shows "handler env event clock =
    (respond 400 (Body_failure (Parse_failed p (str_exn e))), clock')"
  using assms by (simp add: handler_post dispatch_url parse_def)

lemma handler_parser_status:
  assumes "map_of event ''httpMethod'' = Some (JStr ''POST'')"
    and "request_data env event = Inr (JObj kvs)"
    and "map_of kvs ''url'' = Some (JStr u)" and "strip u \<noteq> []"
    and "get_platform_from_url (strip u) = Some plat" and "get_parser plat = Some p"
  shows "statusCode (fst (handler env event clock)) = 200 \<or>
    statusCode (fst (handler env event clock)) = 400"
  using assms
  by (auto simp: handler_post dispatch_url parse_def respond_def split: prod.splits sum.splits)

text \<open>
  C4, as the claim states it: the API answers with an item that is not an object, so
  \<^verbatim>\<open>item.get\<close> raises \<open>AttributeError\<close> inside \<open>DouyinParser.parse\<close>. The handler answers 400
  with the message of the parser, which contains the text of that exception, not 500.
\<close>

theorem parser_fault_counterexample:
  "parser_body DouyinParser mock_env ''https://www.douyin.com/video/1'' 0 = (Inl AttributeError, 2) \<and>
   handler mock_env (post_event (JStr body_bad_item)) 0 =
     (respond 400 (Body_failure (Parse_failed DouyinParser (Exception_text AttributeError))), 2)"
  by code_simp

text \<open>
  C4, amended. Whatever exception the body of a parser raises, a domain error or a fault of the
  program alike, \<open>parse\<close> raises a \<open>ValueError\<close> whose message is the prefix of the parser
  followed by the text of the exception, and the handler answers 400 with that message. Once
  a request has reached a parser the answer is 200 or 400, never 500.
\<close>

theorem parser_fault_is_400:
  "(parser_body p env url clock = (Inl e, clock')
      \<longrightarrow> parse p env url clock = (Inl (ValueError (Parse_failed p (str_exn e))), clock'))
   \<and> (map_of event ''httpMethod'' = Some (JStr ''POST'') \<and>
       request_data env event = Inr (JObj kvs) \<and>
       map_of kvs ''url'' = Some (JStr u) \<and> strip u \<noteq> [] \<and>
       get_platform_from_url (strip u) = Some plat \<and> get_parser plat = Some p \<and>
       parser_body p env (strip u) clock = (Inl e, clock')
      \<longrightarrow> handler env event clock =
            (respond 400 (Body_failure (Parse_failed p (str_exn e))), clock'))
   \<and> (map_of event ''httpMethod'' = Some (JStr ''POST'') \<and>
       request_data env event = Inr (JObj kvs) \<and>
       map_of kvs ''url'' = Some (JStr u) \<and> strip u \<noteq> [] \<and>
       get_platform_from_url (strip u) = Some plat \<and> get_parser plat = Some p
      \<longrightarrow> statusCode (fst (handler env event clock)) = 200 \<or>
          statusCode (fst (handler env event clock)) = 400)"
proof (intro conjI impI)
  assume "parser_body p env url clock = (Inl e, clock')"
  then show "parse p env url clock = (Inl (ValueError (Parse_failed p (str_exn e))), clock')"
    by (simp add: parse_def)
next
  assume "map_of event ''httpMethod'' = Some (JStr ''POST'') \<and>
       request_data env event = Inr (JObj kvs) \<and>
       map_of kvs ''url'' = Some (JStr u) \<and> strip u \<noteq> [] \<and>
       get_platform_from_url (strip u) = Some plat \<and> get_parser plat = Some p \<and>
       parser_body p env (strip u) clock = (Inl e, clock')"
  then show "handler env event clock =
            (respond 400 (Body_failure (Parse_failed p (str_exn e))), clock')"
    by (elim conjE) (rule handler_parser_fault)
next
  assume "map_of event ''httpMethod'' = Some (JStr ''POST'') \<and>
       request_data env event = Inr (JObj kvs) \<and>
       map_of kvs ''url'' = Some (JStr u) \<and> strip u \<noteq> [] \<and>
       get_platform_from_url (strip u) = Some plat \<and> get_parser plat = Some p"
  then show "statusCode (fst (handler env event clock)) = 200 \<or>
          statusCode (fst (handler env event clock)) = 400"
    by (elim conjE) (rule handler_parser_status)
qed

theorem parser_fault_is_400_witness:
  "parse DouyinParser mock_env ''https://www.douyin.com/video/1'' 0 =
     (Inl (ValueError (Parse_failed DouyinParser (Exception_text AttributeError))), 2) \<and>
   handler mock_env (post_event (JObj [(''url'', JStr ''https://www.douyin.com/video/1'')])) 0 =
     (respond 400 (Body_failure (Parse_failed DouyinParser (Exception_text AttributeError))), 2) \<and>
   statusCode (fst (handler mock_env
       (post_event (JObj [(''url'', JStr ''https://www.douyin.com/video/1'')])) 0)) = 400"
proof -
  let ?u = "''https://www.douyin.com/video/1''"
  let ?ev = "post_event (JObj [(''url'', JStr ?u)])"
  have b: "parser_body DouyinParser mock_env ?u 0 = (Inl AttributeError, 2)"
    by code_simp
  have h: "map_of ?ev ''httpMethod'' = Some (JStr ''POST'') \<and>
       request_data mock_env ?ev = Inr (JObj [(''url'', JStr ?u)]) \<and>
       map_of [(''url'', JStr ?u)] ''url'' = Some (JStr ?u) \<and> strip ?u \<noteq> [] \<and>
       get_platform_from_url (strip ?u) = Some ''douyin'' \<and> get_parser ''douyin'' = Some DouyinParser \<and>
       parser_body DouyinParser mock_env (strip ?u) 0 = (Inl AttributeError, 2)"
    by code_simp
  note inst = parser_fault_is_400 [where p = DouyinParser and env = mock_env and url = ?u
      and clock = 0 and e = AttributeError and clock' = 2 and event = ?ev
      and kvs = "[(''url'', JStr ?u)]" and u = ?u and plat = "''douyin''"]
  from b inst [THEN conjunct1]
  have c1: "parse DouyinParser mock_env ?u 0 =
      (Inl (ValueError (Parse_failed DouyinParser (str_exn AttributeError))), 2)"
    by (rule rev_mp)
  from h inst [THEN conjunct2, THEN conjunct1]
  have c2: "handler mock_env ?ev 0 =
      (respond 400 (Body_failure (Parse_failed DouyinParser (str_exn AttributeError))), 2)"
    by (rule rev_mp)
  from c1 c2 show ?thesis
    by (simp add: respond_def)
qed

text \<open>
  C10. A \<open>POST\<close> whose request data is an object with a \<open>url\<close> that is not a string: the
  \<^verbatim>\<open>strip\<close> call raises \<open>AttributeError\<close>, which only the outer handler catches, and the answer
  is 500 with the fixed text, neither of the two 400 answers.
\<close>

theorem handler_url_not_string:
  "map_of event ''httpMethod'' = Some (JStr ''POST'') \<and>
   request_data env event = Inr (JObj kvs) \<and>
   map_of kvs ''url'' = Some v \<and> (\<forall>s. v \<noteq> JStr s)
   \<longrightarrow> dispatch env (JObj kvs) clock = (Inl AttributeError, clock) \<and>
       handler env event clock = (respond 500 (Body_failure Internal_error), clock) \<and>
       handler env event clock \<noteq> (respond 400 (Body_failure Url_required), clock) \<and>
       handler env event clock \<noteq> (respond 400 (Body_failure Bad_request_data), clock)"
proof (intro impI, elim conjE)
  assume a: "map_of event ''httpMethod'' = Some (JStr ''POST'')"
    "request_data env event = Inr (JObj kvs)" "map_of kvs ''url'' = Some v" "\<forall>s. v \<noteq> JStr s"
  then have d: "dispatch env (JObj kvs) clock = (Inl AttributeError, clock)"
    by (intro dispatch_url_not_string)
  with a have "handler env event clock = (respond 500 (Body_failure Internal_error), clock)"
    by (simp add: handler_post)
  with d show "dispatch env (JObj kvs) clock = (Inl AttributeError, clock) \<and>
       handler env event clock = (respond 500 (Body_failure Internal_error), clock) \<and>
       handler env event clock \<noteq> (respond 400 (Body_failure Url_required), clock) \<and>
       handler env event clock \<noteq> (respond 400 (Body_failure Bad_request_data), clock)"
    by (simp add: respond_def)
qed

theorem handler_url_not_string_witness:
  "handler mock_env (post_event (JStr body_number)) 0 =
     (respond 500 (Body_failure Internal_error), 0) \<and>
   handler mock_env (post_event (JObj [(''url'', JNull)])) 0 =
     (respond 500 (Body_failure Internal_error), 0)"
proof -
  have n: "map_of (post_event (JStr body_number)) ''httpMethod'' = Some (JStr ''POST'') \<and>
      request_data mock_env (post_event (JStr body_number)) = Inr (JObj [(''url'', JInt 5)]) \<and>
      map_of [(''url'', JInt 5)] ''url'' = Some (JInt 5)"
    by code_simp
  have z: "map_of (post_event (JObj [(''url'', JNull)])) ''httpMethod'' = Some (JStr ''POST'') \<and>
      request_data mock_env (post_event (JObj [(''url'', JNull)])) = Inr (JObj [(''url'', JNull)]) \<and>
      map_of [(''url'', JNull)] ''url'' = Some JNull"
    by code_simp
  have "\<forall>s. JInt 5 \<noteq> JStr s" "\<forall>s. JNull \<noteq> JStr s"
    by simp_all
  with n z
    handler_url_not_string [where event = "post_event (JStr body_number)" and env = mock_env
      and kvs = "[(''url'', JInt 5)]" and v = "JInt 5" and clock = 0]
    handler_url_not_string [where event = "post_event (JObj [(''url'', JNull)])" and env = mock_env
      and kvs = "[(''url'', JNull)]" and v = JNull and clock = 0]
  show ?thesis
    by blast
qed










lemma kuaishou_result_object:
  assumes "py_get page_data ''videoInfo'' (JObj []) = Inr (JObj vi)"
    and "py_get (JObj vi) ''srcNoMark'' JNull = Inr a"
    and "py_get (JObj vi) ''src'' JNull = Inr b"
  shows "kuaishou_result env page_data =
     (if vi = [] then Inl (ValueError No_video_info)
      else if truthy a then
        Inr \<lparr>success = True,
             title = (case map_of vi ''title'' of Some t \<Rightarrow> t
                      | None \<Rightarrow> JStr (name_kuaishou @ video_suffix)),
             download_url = a, platform_name = name_kuaishou, video_id = None,
             author = (case map_of vi ''userName'' of Some n \<Rightarrow> n | None \<Rightarrow> JStr ''''),
             duration = None, size_text = size_unknown,
             filename = ''kuaishou_'' @
               format_value env (case map_of vi ''photoId'' of Some i \<Rightarrow> i | None \<Rightarrow> JStr ''video'') @
               ''.mp4''\<rparr>
      else if truthy b then
        Inr \<lparr>success = True,
             title = (case map_of vi ''title'' of Some t \<Rightarrow> t
                      | None \<Rightarrow> JStr (name_kuaishou @ video_suffix)),
             download_url = b, platform_name = name_kuaishou, video_id = None,
             author = (case map_of vi ''userName'' of Some n \<Rightarrow> n | None \<Rightarrow> JStr ''''),
             duration = None, size_text = size_unknown,
             filename = ''kuaishou_'' @
               format_value env (case map_of vi ''photoId'' of Some i \<Rightarrow> i | None \<Rightarrow> JStr ''video'') @
               ''.mp4''\<rparr>
      else Inl (ValueError No_download_url))"
  using assms by (auto simp: kuaishou_result_def and_then_def)

lemma kuaishou_result_not_object:
  assumes "\<forall>vi. py_get page_data ''videoInfo'' (JObj []) \<noteq> Inr (JObj vi)"
  shows "\<exists>e. kuaishou_result env page_data = Inl e"
proof (cases "py_get page_data ''videoInfo'' (JObj [])")
  case (Inl e)
  then show ?thesis
    by (simp add: kuaishou_result_def and_then_def)
next
  case (Inr v)
  with assms have "\<forall>vi. v \<noteq> JObj vi"
    by simp
  then have "py_get v ''srcNoMark'' JNull = Inl AttributeError"
    by (cases v) simp_all
  with Inr show ?thesis
    by (simp add: kuaishou_result_def and_then_def)
qed

lemma kuaishou_parse_page_data:
  assumes "make_request env url None True clock = (Inr resp, clock')"
    and "re_search (match_assignment ''window.pageData'' '';'') (resp_text resp) = Some g"
    and "json_loads env g = Inr page_data"
  shows "parse KuaishouParser env url clock =
     (case kuaishou_result env page_data of
        Inl e \<Rightarrow> Inl (ValueError (Parse_failed KuaishouParser (str_exn e)))
      | Inr r \<Rightarrow> Inr r, clock')"
  using assms by (simp add: parse_def kuaishou_body_def split: sum.splits)

text \<open>
  C8, as the claim states it: both fields are present, the no-watermark one with the empty
  string. The parser selects the generic source.
\<close>

theorem kuaishou_both_present_counterexample:
  "kuaishou_result mock_env empty_no_mark =
     Inr \<lparr>success = True, title = JStr (name_kuaishou @ video_suffix),
          download_url = JStr ''https://v2.kwaicdn.com/clip.mp4'',
          platform_name = name_kuaishou, video_id = None, author = JStr [], duration = None,
          size_text = size_unknown, filename = ''kuaishou_video.mp4''\<rparr>"
  by code_simp

text \<open>
  C8, amended. For every decoded page data, with \<open>a\<close> the value of \<open>srcNoMark\<close> and \<open>b\<close> the
  value of \<open>src\<close> in its \<open>videoInfo\<close> object (\<open>None\<close> for a missing field, the empty object for
  a missing \<open>videoInfo\<close>): the download URL is \<open>a\<close> whenever \<open>a\<close> is a true value, whatever \<open>b\<close>
  is; otherwise it is \<open>b\<close> when \<open>b\<close> is a true value; and when neither is, the parser fails
  (with the error that says the page has no video information when \<open>videoInfo\<close> is missing or
  empty, and the one that says no download link was found otherwise). It fails as well when
  \<open>videoInfo\<close> is not an object. \<open>parse\<close> returns that outcome for the page data it decoded,
  a failure under the prefix of the parser.
\<close>

theorem kuaishou_source_choice:
  "(py_get page_data ''videoInfo'' (JObj []) = Inr (JObj vi) \<and>
    py_get (JObj vi) ''srcNoMark'' JNull = Inr a \<and> py_get (JObj vi) ''src'' JNull = Inr b
    \<longrightarrow> (truthy a \<longrightarrow> (\<exists>r. kuaishou_result env page_data = Inr r \<and> download_url r = a))
      \<and> (\<not> truthy a \<and> truthy b
           \<longrightarrow> (\<exists>r. kuaishou_result env page_data = Inr r \<and> download_url r = b))
      \<and> (\<not> truthy a \<and> \<not> truthy b
           \<longrightarrow> kuaishou_result env page_data =
                 Inl (ValueError (if vi = [] then No_video_info else No_download_url))))
   \<and> ((\<forall>vi. py_get page_data ''videoInfo'' (JObj []) \<noteq> Inr (JObj vi))
      \<longrightarrow> (\<exists>e. kuaishou_result env page_data = Inl e))
   \<and> (make_request env url None True clock = (Inr resp, clock') \<and>
       re_search (match_assignment ''window.pageData'' '';'') (resp_text resp) = Some g \<and>
       json_loads env g = Inr page_data
      \<longrightarrow> parse KuaishouParser env url clock =
            (case kuaishou_result env page_data of
               Inl e \<Rightarrow> Inl (ValueError (Parse_failed KuaishouParser (str_exn e)))
             | Inr r \<Rightarrow> Inr r, clock'))"
proof (intro conjI)
  show "py_get page_data ''videoInfo'' (JObj []) = Inr (JObj vi) \<and>
    py_get (JObj vi) ''srcNoMark'' JNull = Inr a \<and> py_get (JObj vi) ''src'' JNull = Inr b
    \<longrightarrow> (truthy a \<longrightarrow> (\<exists>r. kuaishou_result env page_data = Inr r \<and> download_url r = a))
      \<and> (\<not> truthy a \<and> truthy b
           \<longrightarrow> (\<exists>r. kuaishou_result env page_data = Inr r \<and> download_url r = b))
      \<and> (\<not> truthy a \<and> \<not> truthy b
           \<longrightarrow> kuaishou_result env page_data =
                 Inl (ValueError (if vi = [] then No_video_info else No_download_url)))"
  proof (intro impI, elim conjE)
    assume h: "py_get page_data ''videoInfo'' (JObj []) = Inr (JObj vi)"
      "py_get (JObj vi) ''srcNoMark'' JNull = Inr a" "py_get (JObj vi) ''src'' JNull = Inr b"
    have empty: "vi = [] \<Longrightarrow> \<not> truthy a \<and> \<not> truthy b"
      using h(2,3) by auto
    from kuaishou_result_object [OF h, of env] empty
    show "(truthy a \<longrightarrow> (\<exists>r. kuaishou_result env page_data = Inr r \<and> download_url r = a))
      \<and> (\<not> truthy a \<and> truthy b
           \<longrightarrow> (\<exists>r. kuaishou_result env page_data = Inr r \<and> download_url r = b))
      \<and> (\<not> truthy a \<and> \<not> truthy b
           \<longrightarrow> kuaishou_result env page_data =
                 Inl (ValueError (if vi = [] then No_video_info else No_download_url)))"
      by (cases "vi = []") simp_all
  qed
  show "(\<forall>vi. py_get page_data ''videoInfo'' (JObj []) \<noteq> Inr (JObj vi))
      \<longrightarrow> (\<exists>e. kuaishou_result env page_data = Inl e)"
    by (rule impI) (rule kuaishou_result_not_object)
  show "make_request env url None True clock = (Inr resp, clock') \<and>
       re_search (match_assignment ''window.pageData'' '';'') (resp_text resp) = Some g \<and>
       json_loads env g = Inr page_data
      \<longrightarrow> parse KuaishouParser env url clock =
            (case kuaishou_result env page_data of
               Inl e \<Rightarrow> Inl (ValueError (Parse_failed KuaishouParser (str_exn e)))
             | Inr r \<Rightarrow> Inr r, clock')"
    by (rule impI, elim conjE) (rule kuaishou_parse_page_data)
qed

theorem kuaishou_source_choice_witness:
  "(\<exists>r. kuaishou_result mock_env
          (JObj [(''videoInfo'', JObj [(''srcNoMark'', JStr ''https://v2.kwaicdn.com/clean.mp4''),
                                       (''src'', JStr ''https://v2.kwaicdn.com/clip.mp4'')])]) = Inr r \<and>
        download_url r = JStr ''https://v2.kwaicdn.com/clean.mp4'') \<and>
   (\<exists>r. kuaishou_result mock_env
          (JObj [(''videoInfo'', JObj [(''src'', JStr ''https://v2.kwaicdn.com/clip.mp4'')])]) = Inr r \<and>
        download_url r = JStr ''https://v2.kwaicdn.com/clip.mp4'') \<and>
   kuaishou_result mock_env (JObj [(''videoInfo'', JObj [(''title'', JStr ''tea'')])]) =
     Inl (ValueError No_download_url) \<and>
   kuaishou_result mock_env (JObj []) = Inl (ValueError No_video_info) \<and>
   (\<exists>e. kuaishou_result mock_env (JObj [(''videoInfo'', JStr ''none'')]) = Inl e) \<and>
   parse KuaishouParser mock_env ''https://www.kuaishou.com/short-video/3xsrc1'' 0 =
     (Inr number_src_record, 1)"
proof -
  let ?both = "[(''srcNoMark'', JStr ''https://v2.kwaicdn.com/clean.mp4''),
                (''src'', JStr ''https://v2.kwaicdn.com/clip.mp4'')]"
  let ?one = "[(''src'', JStr ''https://v2.kwaicdn.com/clip.mp4'')]"
  let ?none = "[(''title'', JStr ''tea'')]"
  let ?url = "''https://www.kuaishou.com/short-video/3xsrc1''"
  let ?page = "\<lparr>status_code = 200, headers = [], resp_text = number_src_page\<rparr>"
  have h1: "py_get (JObj [(''videoInfo'', JObj ?both)]) ''videoInfo'' (JObj []) = Inr (JObj ?both) \<and>
      py_get (JObj ?both) ''srcNoMark'' JNull = Inr (JStr ''https://v2.kwaicdn.com/clean.mp4'') \<and>
      py_get (JObj ?both) ''src'' JNull = Inr (JStr ''https://v2.kwaicdn.com/clip.mp4'')"
    by simp
  have h2: "py_get (JObj [(''videoInfo'', JObj ?one)]) ''videoInfo'' (JObj []) = Inr (JObj ?one) \<and>
      py_get (JObj ?one) ''srcNoMark'' JNull = Inr JNull \<and>
      py_get (JObj ?one) ''src'' JNull = Inr (JStr ''https://v2.kwaicdn.com/clip.mp4'')"
    by simp
  have h3: "py_get (JObj [(''videoInfo'', JObj ?none)]) ''videoInfo'' (JObj []) = Inr (JObj ?none) \<and>
      py_get (JObj ?none) ''srcNoMark'' JNull = Inr JNull \<and>
      py_get (JObj ?none) ''src'' JNull = Inr JNull"
    by simp
  have h4: "py_get (JObj []) ''videoInfo'' (JObj []) = Inr (JObj []) \<and>
      py_get (JObj []) ''srcNoMark'' JNull = Inr JNull \<and>
      py_get (JObj []) ''src'' JNull = Inr JNull"
    by simp
  have h5: "\<forall>vi. py_get (JObj [(''videoInfo'', JStr ''none'')]) ''videoInfo'' (JObj []) \<noteq> Inr (JObj vi)"
    by simp
  have h6: "make_request mock_env ?url None True 0 = (Inr ?page, 1) \<and>
      re_search (match_assignment ''window.pageData'' '';'') (resp_text ?page) = Some number_src_text \<and>
      json_loads mock_env number_src_text = Inr number_src_json"
    by code_simp
  have k: "kuaishou_result mock_env number_src_json = Inr number_src_record"
    by code_simp
  from h1 kuaishou_source_choice [where page_data = "JObj [(''videoInfo'', JObj ?both)]"
      and vi = ?both and a = "JStr ''https://v2.kwaicdn.com/clean.mp4''"
      and b = "JStr ''https://v2.kwaicdn.com/clip.mp4''" and env = mock_env, THEN conjunct1]
  have c1: "\<exists>r. kuaishou_result mock_env (JObj [(''videoInfo'', JObj ?both)]) = Inr r \<and>
        download_url r = JStr ''https://v2.kwaicdn.com/clean.mp4''"
    by simp
  from h2 kuaishou_source_choice [where page_data = "JObj [(''videoInfo'', JObj ?one)]"
      and vi = ?one and a = JNull and b = "JStr ''https://v2.kwaicdn.com/clip.mp4''"
      and env = mock_env, THEN conjunct1]
  have c2: "\<exists>r. kuaishou_result mock_env (JObj [(''videoInfo'', JObj ?one)]) = Inr r \<and>
        download_url r = JStr ''https://v2.kwaicdn.com/clip.mp4''"
    by simp
  from h3 kuaishou_source_choice [where page_data = "JObj [(''videoInfo'', JObj ?none)]"
      and vi = ?none and a = JNull and b = JNull and env = mock_env, THEN conjunct1]
  have c3: "kuaishou_result mock_env (JObj [(''videoInfo'', JObj ?none)]) =
      Inl (ValueError No_download_url)"
    by simp
  from h4 kuaishou_source_choice [where page_data = "JObj []" and vi = "[]" and a = JNull
      and b = JNull and env = mock_env, THEN conjunct1]
  have c4: "kuaishou_result mock_env (JObj []) = Inl (ValueError No_video_info)"
    by simp
  from h5 kuaishou_source_choice [where page_data = "JObj [(''videoInfo'', JStr ''none'')]"
      and env = mock_env, THEN conjunct2, THEN conjunct1]
  have c5: "\<exists>e. kuaishou_result mock_env (JObj [(''videoInfo'', JStr ''none'')]) = Inl e"
    by (rule rev_mp)
  from h6 kuaishou_source_choice [where env = mock_env and url = ?url and clock = 0
      and resp = ?page and clock' = 1 and g = number_src_text and page_data = number_src_json,
      THEN conjunct2, THEN conjunct2]
  have "parse KuaishouParser mock_env ?url 0 =
      (case kuaishou_result mock_env number_src_json of
         Inl e \<Rightarrow> Inl (ValueError (Parse_failed KuaishouParser (str_exn e)))
       | Inr r \<Rightarrow> Inr r, 1)"
    by (rule rev_mp)
  with k have c6: "parse KuaishouParser mock_env ?url 0 = (Inr number_src_record, 1)"
    by simp
  from c1 c2 c3 c4 c5 c6 show ?thesis
    by (intro conjI)
qed

end
